theory Spec2Isabelle
  imports Complex_Main
begin

section \<open>Common data\<close>

text \<open>
  Python exceptions are values. \<open>ExternalError\<close> stands for whatever exception an external
  client (the Gemini SDK, the Qdrant client, the SQLAlchemy session, pdfplumber) raises;
  the other constructors are the exceptions the repository's own code raises or provokes.
\<close>

datatype error =
    RuntimeError
  | ValueError
  | NameError
  | UnboundLocalError
  | IndexError
  | KeyError
  | ZeroDivisionError
  | ExternalError string

section \<open>Retrieval results and confidence scoring (retrieval\_service.py)\<close>

text \<open>
  The dataclass \<open>RetrievedChunk\<close>. The Python float \<open>relevance_score\<close> is modelled as a
  real number: sums, quotients and comparisons below are exact, the rounding of IEEE
  doubles is not modelled.
\<close>

record RetrievedChunk =
  rc_chunk_text :: string
  rc_policy_id :: int
  rc_policy_name :: string
  rc_policy_version :: string
  rc_section_name :: "string option"
  rc_chunk_index :: int
  rc_relevance_score :: real
  rc_embedding_id :: string

text \<open>
  Python's \<open>sum(gen)\<close> adds from the left starting at 0, and \<open>max(gen)\<close> keeps the first
  element and replaces it by every later element that is larger. \<open>max\<close> of an empty
  sequence raises ValueError; \<open>calculate_confidence\<close> only calls it on a non-empty list.
\<close>

definition py_sum :: "real list \<Rightarrow> real" where
  "py_sum xs = foldl (\<lambda>acc x. acc + x) 0 xs"

fun py_max :: "real list \<Rightarrow> error + real" where
  "py_max [] = Inl ValueError"
| "py_max (x # xs) = Inr (foldl (\<lambda>m y. if y > m then y else m) x xs)"

text \<open>
  \<open>RAGRetrievalService.calculate_confidence\<close>. The guard \<open>if not chunks\<close> returns
  \<open>"low"\<close>; after it the list is non-empty, so the division by \<open>len(chunks)\<close> and
  \<open>max\<close> cannot raise (the \<open>Inl\<close> branch below is unreachable and kept only to make the
  model total).
\<close>

definition calculate_confidence :: "RetrievedChunk list \<Rightarrow> string" where
  "calculate_confidence chunks =
     (if chunks = [] then ''low''
      else
        (case py_max (map rc_relevance_score chunks) of
           Inl e \<Rightarrow> ''low''
         | Inr max_score \<Rightarrow>
            (if max_score > 0.85
                \<and> py_sum (map rc_relevance_score chunks) / real (length chunks) > 0.75
             then ''high''
             else if max_score > 0.70
                \<and> py_sum (map rc_relevance_score chunks) / real (length chunks) > 0.65
             then ''medium''
             else ''low'')))"


section \<open>Effects: results, raised exceptions and calls to external clients\<close>

text \<open>
  Every call the code makes to an external client is recorded as an event, so that a
  statement such as "no similarity search is issued" is a statement about the list of
  events of a run. A computation returns its result (or the exception it raised) together
  with the events it produced, in order.
\<close>

datatype match_cond = MatchAny "int list" | MatchValue int

record FieldCondition =
  fc_key :: string
  fc_match :: match_cond

record Filter =
  flt_must :: "FieldCondition list"

text \<open>The keyword arguments of \<open>AsyncQdrantClient.search\<close> as \<open>search_similar\<close> passes them.\<close>

record search_request =
  sr_collection_name :: string
  sr_query_vector :: "real list"
  sr_limit :: int
  sr_score_threshold :: real
  sr_query_filter :: "Filter option"
  sr_with_payload :: bool

text \<open>
  The arguments of \<open>client.models.generate_content\<close> that vary between calls (the model
  name and the safety settings are constants of the service).
\<close>

record gen_request =
  gr_contents :: string
  gr_temperature :: real
  gr_max_output_tokens :: int

text \<open>A source citation as \<open>format_sources\<close> builds it.\<close>

record source_citation =
  src_policy :: string
  src_version :: string
  src_section :: string
  src_relevance_score :: real

text \<open>The keyword arguments of \<open>AuditLoggingService.log_query\<close>.\<close>

record audit_entry =
  ae_user_id :: string
  ae_user_role :: string
  ae_question :: string
  ae_answer :: string
  ae_retrieved_chunks :: "source_citation list"
  ae_service_id :: "string option"
  ae_confidence :: string

datatype event =
    EmbedContent "string list"
  | GenerateContent gen_request
  | GenerateContentStream gen_request
  | QdrantSearch search_request
  | DbSelectActivePolicyIds
  | DbGetPolicy int
  | AuditLogQuery audit_entry

type_synonym 'a io = "(error + 'a) \<times> event list"

definition io_return :: "'a \<Rightarrow> 'a io" where
  "io_return x = (Inr x, [])"

definition io_raise :: "error \<Rightarrow> 'a io" where
  "io_raise e = (Inl e, [])"

text \<open>An external call: its outcome \<open>r\<close> and the event that records it.\<close>

definition io_call :: "event \<Rightarrow> error + 'a \<Rightarrow> 'a io" where
  "io_call ev r = (r, [ev])"

text \<open>The outcome of a computation that calls no external client.\<close>

definition io_raise_or :: "error + 'a \<Rightarrow> 'a io" where
  "io_raise_or r = (r, [])"

text \<open>Sequencing: an exception in the first computation skips the second.\<close>

definition io_bind :: "'a io \<Rightarrow> ('a \<Rightarrow> 'b io) \<Rightarrow> 'b io" where
  "io_bind m f =
     (case m of
        (Inl e, evs) \<Rightarrow> (Inl e, evs)
      | (Inr x, evs) \<Rightarrow> (case f x of (r, evs') \<Rightarrow> (r, evs @ evs')))"

text \<open>\<open>try: m except Exception as e: handler e\<close>.\<close>

definition io_try :: "'a io \<Rightarrow> (error \<Rightarrow> 'a io) \<Rightarrow> 'a io" where
  "io_try m handler =
     (case m of
        (Inl e, evs) \<Rightarrow> (case handler e of (r, evs') \<Rightarrow> (r, evs @ evs'))
      | (Inr x, evs) \<Rightarrow> (Inr x, evs))"

section \<open>Vector store service (qdrant\_service.py)\<close>

text \<open>
  A point of the vector store: the id, the vector and the payload that \<open>upsert_vectors\<close>
  builds. The metadata merged into the payload is kept as its own field.
\<close>

datatype json = JInt int | JStr string

record Point =
  pt_id :: string
  pt_vector :: "real list"
  pt_policy_id :: int
  pt_chunk_text :: string
  pt_chunk_index :: int
  pt_section_name :: "string option"
  pt_metadata :: "(string \<times> json) list"

text \<open>
  A point returned by the Qdrant client. The payload is the one \<open>upsert_vectors\<close> writes:
  the five fixed keys, and the additional metadata merged into it.
\<close>

record ScoredPoint =
  sp_id :: string
  sp_score :: real
  sp_policy_id :: int
  sp_chunk_text :: string
  sp_chunk_index :: int
  sp_section_name :: "string option"
  sp_metadata :: "(string \<times> json) list"

text \<open>The dictionary \<open>search_similar\<close> builds for each result.\<close>

record search_hit =
  hit_embedding_id :: string
  hit_score :: real
  hit_policy_id :: int
  hit_chunk_text :: string
  hit_chunk_index :: int
  hit_section_name :: "string option"
  hit_metadata :: "(string \<times> json) list"

text \<open>
  \<open>QdrantService\<close>: \<open>self.client\<close> is \<open>None\<close> until \<open>initialize\<close> has run. The client is
  external; \<open>qc_search\<close> is what its \<open>search\<close> method answers (or raises) for a request,
  \<open>qc_upsert_error\<close> the exception its \<open>upsert\<close> method raises for a batch of points, if any.
\<close>

record qdrant_client =
  qc_search :: "search_request \<Rightarrow> error + ScoredPoint list"
  qc_upsert_error :: "Point list \<Rightarrow> error option"

record QdrantService =
  qd_client :: "qdrant_client option"
  qd_collection_name :: string

definition format_result :: "ScoredPoint \<Rightarrow> search_hit" where
  "format_result result =
     \<lparr> hit_embedding_id = sp_id result,
       hit_score = sp_score result,
       hit_policy_id = sp_policy_id result,
       hit_chunk_text = sp_chunk_text result,
       hit_chunk_index = sp_chunk_index result,
       hit_section_name = sp_section_name result,
       hit_metadata = sp_metadata result \<rparr>"

text \<open>
  The filter of \<open>search_similar\<close>: \<open>if policy_ids:\<close> is false for \<open>None\<close> and for the
  empty list, so both leave \<open>query_filter = None\<close>.
\<close>

fun build_query_filter :: "int list option \<Rightarrow> Filter option" where
  "build_query_filter None = None"
| "build_query_filter (Some []) = None"
| "build_query_filter (Some (i # ids)) =
     Some \<lparr> flt_must = [\<lparr> fc_key = ''policy_id'', fc_match = MatchAny (i # ids) \<rparr>] \<rparr>"

definition build_search_request ::
  "QdrantService \<Rightarrow> real list \<Rightarrow> int \<Rightarrow> real \<Rightarrow> int list option \<Rightarrow> search_request" where
  "build_search_request svc query_embedding top_k score_threshold policy_ids =
     \<lparr> sr_collection_name = qd_collection_name svc,
       sr_query_vector = query_embedding,
       sr_limit = top_k,
       sr_score_threshold = score_threshold,
       sr_query_filter = build_query_filter policy_ids,
       sr_with_payload = True \<rparr>"

text \<open>
  \<open>QdrantService.search_similar\<close>. The \<open>except\<close> clause logs and re-raises, so an
  exception of the client is the exception of the method.
\<close>

definition search_similar ::
  "QdrantService \<Rightarrow> real list \<Rightarrow> int \<Rightarrow> real \<Rightarrow> int list option \<Rightarrow> search_hit list io" where
  "search_similar svc query_embedding top_k score_threshold policy_ids =
     (case qd_client svc of
        None \<Rightarrow> io_raise RuntimeError
      | Some client \<Rightarrow>
          io_bind
            (io_call
               (QdrantSearch
                  (build_search_request svc query_embedding top_k score_threshold policy_ids))
               (qc_search client
                  (build_search_request svc query_embedding top_k score_threshold policy_ids)))
            (\<lambda>results. io_return (map format_result results)))"

text \<open>
  \<open>QdrantService.upsert_vectors\<close>. \<open>new_id\<close> supplies the values of \<open>uuid4()\<close>, one
  per embedding; \<open>upsert_error batch\<close> is the exception the client raises for a batch, if
  any. Batches of 100 points are written one after the other; the batches written before
  a failing one stay in the store.
\<close>

fun build_points ::
  "string list \<Rightarrow> real list list \<Rightarrow> int \<Rightarrow> string list \<Rightarrow> int list \<Rightarrow> string option list \<Rightarrow>
    (string \<times> json) list list \<Rightarrow> Point list" where
  "build_points (embedding_id # ids) (e # es) policy_id (t # ts) (i # is) (s # ss) (m # ms) =
     \<lparr> pt_id = embedding_id, pt_vector = e, pt_policy_id = policy_id, pt_chunk_text = t,
       pt_chunk_index = i, pt_section_name = s, pt_metadata = m \<rparr>
     # build_points ids es policy_id ts is ss ms"
| "build_points _ _ _ _ _ _ _ = []"

function upsert_batches ::
  "(Point list \<Rightarrow> error option) \<Rightarrow> Point list \<Rightarrow> Point list \<Rightarrow> error option \<times> Point list" where
  "upsert_batches upsert_error points store =
     (if points = [] then (None, store)
      else
        (case upsert_error (take 100 points) of
           Some e \<Rightarrow> (Some e, store)
         | None \<Rightarrow> upsert_batches upsert_error (drop 100 points) (store @ take 100 points)))"
  by pat_completeness auto
termination
  by (relation "measure (\<lambda>(u, points, store). length points)") auto

declare upsert_batches.simps [simp del]

definition upsert_vectors ::
  "QdrantService \<Rightarrow> (nat \<Rightarrow> string) \<Rightarrow> real list list \<Rightarrow> int \<Rightarrow> string list \<Rightarrow> int list \<Rightarrow>
    string option list \<Rightarrow> (string \<times> json) list list \<Rightarrow> Point list \<Rightarrow>
    (error + string list) \<times> Point list" where
  "upsert_vectors svc new_id embeddings policy_id chunk_texts chunk_indices section_names
      metadatas store =
     (case qd_client svc of
        None \<Rightarrow> (Inl RuntimeError, store)
      | Some c \<Rightarrow>
          if \<not> (length embeddings = length chunk_texts
                 \<and> length chunk_texts = length chunk_indices
                 \<and> length chunk_indices = length section_names
                 \<and> length section_names = length metadatas)
          then (Inl ValueError, store)
          else
            (case upsert_batches (qc_upsert_error c)
                    (build_points (map new_id [0 ..< length embeddings]) embeddings policy_id
                       chunk_texts chunk_indices section_names metadatas)
                    store of
               (Some e, store') \<Rightarrow> (Inl e, store')
             | (None, store') \<Rightarrow> (Inr (map new_id [0 ..< length embeddings]), store')))"

section \<open>Gemini service (gemini\_service.py)\<close>

text \<open>
  The external SDK client. \<open>gc_embed_content contents\<close> is the list \<open>response.embeddings\<close>
  (each embedding given by its \<open>values\<close>; \<open>None\<close> is the empty list) or the exception the
  call raises. \<open>gc_generate_content\<close> is \<open>response.text\<close> (\<open>None\<close> is the empty string) or
  the exception raised by the call or by reading the text. \<open>gc_generate_content_stream\<close>
  gives the texts of the chunks the stream delivers and the exception that ends it, if
  any.
\<close>

record gemini_client =
  gc_embed_content :: "string list \<Rightarrow> error + real list list"
  gc_generate_content :: "gen_request \<Rightarrow> error + string"
  gc_generate_content_stream :: "gen_request \<Rightarrow> string list \<times> error option"

record GeminiService =
  gm_client :: "gemini_client option"

definition error_fallback_message :: string where
  "error_fallback_message =
     ''I encountered an error processing your question. '' @
     ''Please contact your manager or on-call coordinator for assistance.''"

definition empty_response_message :: string where
  "empty_response_message =
     ''I couldn't generate a response. Please try again or contact your manager.''"

text \<open>
  \<open>generate_embedding\<close>: the client check is outside the \<open>try\<close>; inside it an empty
  \<open>response.embeddings\<close> raises ValueError, and everything is re-raised.
\<close>

definition generate_embedding :: "GeminiService \<Rightarrow> string \<Rightarrow> real list io" where
  "generate_embedding svc text =
     (case gm_client svc of
        None \<Rightarrow> io_raise RuntimeError
      | Some client \<Rightarrow>
          io_bind (io_call (EmbedContent [text]) (gc_embed_content client [text]))
            (\<lambda>embeddings.
               (case embeddings of
                  [] \<Rightarrow> io_raise ValueError
                | embedding # _ \<Rightarrow> io_return embedding)))"

text \<open>
  The list comprehension of \<open>generate_embeddings_batch\<close>,
  \<^verbatim>\<open>[emb.values for emb.values in response.embeddings]\<close>:
  its loop target is the attribute \<open>values\<close> of the name \<open>emb\<close>, and \<open>emb\<close> is bound
  nowhere (not in the comprehension, not in the method, not in the module). Binding the
  first element therefore raises NameError; only an empty \<open>response.embeddings\<close> would
  get through, with no iteration at all.
\<close>

fun batch_embeddings_comprehension :: "real list list \<Rightarrow> error + real list list" where
  "batch_embeddings_comprehension [] = Inr []"
| "batch_embeddings_comprehension (e # es) = Inl NameError"

text \<open>
  \<open>range(0, n, step)\<close> for a positive step, as the list of its values, and Python's slice
  \<open>texts[i : i + batch_size]\<close> for \<open>0 \<le> i\<close> and a positive \<open>batch_size\<close>.
\<close>

definition py_range_step :: "nat \<Rightarrow> nat \<Rightarrow> nat list" where
  "py_range_step n step = map (\<lambda>k. k * step) [0 ..< (n + step - 1) div step]"

text \<open>
  The body of the \<open>for\<close> loop of \<open>generate_embeddings_batch\<close> for the batch that starts
  at \<open>i\<close>, and the loop over the batch starts.
\<close>

definition embed_one_batch ::
  "gemini_client \<Rightarrow> string list \<Rightarrow> nat \<Rightarrow> nat \<Rightarrow> real list list \<Rightarrow> real list list io" where
  "embed_one_batch client texts batch_size i all_embeddings =
     io_bind
       (io_call (EmbedContent (take batch_size (drop i texts)))
          (gc_embed_content client (take batch_size (drop i texts))))
       (\<lambda>embeddings.
          if embeddings = [] then io_raise ValueError
          else
            (case batch_embeddings_comprehension embeddings of
               Inl e \<Rightarrow> io_raise e
             | Inr batch_embeddings \<Rightarrow> io_return (all_embeddings @ batch_embeddings)))"

fun embed_batches ::
  "gemini_client \<Rightarrow> string list \<Rightarrow> nat \<Rightarrow> nat list \<Rightarrow> real list list \<Rightarrow> real list list io" where
  "embed_batches client texts batch_size [] all_embeddings = io_return all_embeddings"
| "embed_batches client texts batch_size (i # starts) all_embeddings =
     io_bind (embed_one_batch client texts batch_size i all_embeddings)
       (\<lambda>all_embeddings'. embed_batches client texts batch_size starts all_embeddings')"

text \<open>
  \<open>generate_embeddings_batch\<close>. \<open>range\<close> raises ValueError for a step of zero and is empty
  for a negative step; the \<open>except\<close> clause re-raises.
\<close>

definition generate_embeddings_batch ::
  "GeminiService \<Rightarrow> string list \<Rightarrow> int \<Rightarrow> real list list io" where
  "generate_embeddings_batch svc texts batch_size =
     (case gm_client svc of
        None \<Rightarrow> io_raise RuntimeError
      | Some client \<Rightarrow>
          if batch_size = 0 then io_raise ValueError
          else if batch_size < 0 then io_return []
          else embed_batches client texts (nat batch_size)
                 (py_range_step (length texts) (nat batch_size)) [])"

text \<open>
  \<open>generate_chat_response\<close>: the client check is outside the \<open>try\<close>; any exception
  inside it is turned into the fallback text ("Return safe fallback instead of raising").
\<close>

definition build_gen_request :: "string \<Rightarrow> string \<Rightarrow> real \<Rightarrow> int \<Rightarrow> gen_request" where
  "build_gen_request system_prompt user_prompt temperature max_tokens =
     \<lparr> gr_contents = system_prompt @ [CHR 0x0A, CHR 0x0A] @ user_prompt,
       gr_temperature = temperature,
       gr_max_output_tokens = max_tokens \<rparr>"

definition generate_chat_response ::
  "GeminiService \<Rightarrow> string \<Rightarrow> string \<Rightarrow> real \<Rightarrow> int \<Rightarrow> string io" where
  "generate_chat_response svc system_prompt user_prompt temperature max_tokens =
     (case gm_client svc of
        None \<Rightarrow> io_raise RuntimeError
      | Some client \<Rightarrow>
          io_try
            (io_bind
               (io_call
                  (GenerateContent
                     (build_gen_request system_prompt user_prompt temperature max_tokens))
                  (gc_generate_content client
                     (build_gen_request system_prompt user_prompt temperature max_tokens)))
               (\<lambda>text. if text = [] then io_return empty_response_message
                        else io_return text))
            (\<lambda>e. io_return error_fallback_message))"

text \<open>
  An asynchronous generator: the fragments it yields, the exception that ends it (if
  any), and the events of the run.
\<close>

type_synonym 'a stream_io = "('a list \<times> error option) \<times> event list"

definition generate_chat_response_stream ::
  "GeminiService \<Rightarrow> string \<Rightarrow> string \<Rightarrow> real \<Rightarrow> int \<Rightarrow> string stream_io" where
  "generate_chat_response_stream svc system_prompt user_prompt temperature max_tokens =
     (case gm_client svc of
        None \<Rightarrow> (([], Some RuntimeError), [])
      | Some client \<Rightarrow>
          (case gc_generate_content_stream client
                  (build_gen_request system_prompt user_prompt temperature max_tokens) of
             (texts, None) \<Rightarrow>
               ((filter (\<lambda>t. t \<noteq> []) texts, None),
                [GenerateContentStream
                   (build_gen_request system_prompt user_prompt temperature max_tokens)])
           | (texts, Some e) \<Rightarrow>
               ((filter (\<lambda>t. t \<noteq> []) texts @ [error_fallback_message], None),
                [GenerateContentStream
                   (build_gen_request system_prompt user_prompt temperature max_tokens)])))"

section \<open>Policy records (models/policy.py)\<close>

text \<open>Dates are day numbers; the tag dictionary is an association list.\<close>

type_synonym date = int

record Policy =
  p_id :: int
  p_name :: string
  p_version :: string
  p_file_path :: string
  p_uploaded_by :: "string option"
  p_effective_from :: date
  p_effective_to :: "date option"
  p_status :: string
  p_tags :: "(string \<times> string list) list"

record PolicyChunk =
  pc_policy_id :: int
  pc_chunk_text :: string
  pc_chunk_index :: int
  pc_section_name :: "string option"
  pc_embedding_id :: string
  pc_word_count :: int
  pc_char_count :: int
  pc_page_number :: int

section \<open>Retrieval (retrieval\_service.py)\<close>

text \<open>
  What the retrieval service asks of the metadata store, an external collaborator:
  \<open>ms_active_policy_ids\<close> is the answer to
  \<^verbatim>\<open>select(Policy.id).where(Policy.status == "active")\<close>, \<open>ms_get_policy\<close> the answer to
  \<^verbatim>\<open>db.get(Policy, policy_id)\<close>; either may raise.
\<close>

record metadata_store =
  ms_active_policy_ids :: "error + int list"
  ms_get_policy :: "int \<Rightarrow> error + Policy option"

record RAGRetrievalService =
  rs_gemini :: GeminiService
  rs_qdrant :: QdrantService
  rs_db :: metadata_store

text \<open>
  Step 4 of \<open>retrieve_relevant_chunks\<close>: the loop over the search results. A result whose
  policy is not found is skipped.
\<close>

fun enrich_results :: "metadata_store \<Rightarrow> search_hit list \<Rightarrow> RetrievedChunk list \<Rightarrow>
    RetrievedChunk list io" where
  "enrich_results db [] retrieved_chunks = io_return retrieved_chunks"
| "enrich_results db (result # results) retrieved_chunks =
     io_bind (io_call (DbGetPolicy (hit_policy_id result))
                (ms_get_policy db (hit_policy_id result)))
       (\<lambda>found.
          (case found of
             None \<Rightarrow> enrich_results db results retrieved_chunks
           | Some policy \<Rightarrow>
               enrich_results db results
                 (retrieved_chunks @
                  [\<lparr> rc_chunk_text = hit_chunk_text result,
                      rc_policy_id = p_id policy,
                      rc_policy_name = p_name policy,
                      rc_policy_version = p_version policy,
                      rc_section_name = hit_section_name result,
                      rc_chunk_index = hit_chunk_index result,
                      rc_relevance_score = hit_score result,
                      rc_embedding_id = hit_embedding_id result \<rparr>])))"

text \<open>
  Steps 3 and 4. The log line after the loop divides the sum of the scores by
  \<open>len(retrieved_chunks)\<close>: when every result was skipped this raises ZeroDivisionError.
\<close>

definition search_and_enrich ::
  "RAGRetrievalService \<Rightarrow> real list \<Rightarrow> int \<Rightarrow> real \<Rightarrow> int list option \<Rightarrow>
    RetrievedChunk list io" where
  "search_and_enrich svc question_embedding top_k score_threshold policy_ids =
     io_bind
       (search_similar (rs_qdrant svc) question_embedding top_k score_threshold policy_ids)
       (\<lambda>search_results.
          if search_results = [] then io_return []
          else
            io_bind (enrich_results (rs_db svc) search_results [])
              (\<lambda>retrieved_chunks.
                 if retrieved_chunks = [] then io_raise ZeroDivisionError
                 else io_return retrieved_chunks))"

text \<open>
  \<open>retrieve_relevant_chunks\<close>: embed the question; with \<open>active_only\<close>, read the active
  policy ids and return \<open>[]\<close> when there are none; otherwise search and enrich. The
  \<open>except\<close> clause re-raises.
\<close>

definition retrieve_relevant_chunks ::
  "RAGRetrievalService \<Rightarrow> string \<Rightarrow> int \<Rightarrow> real \<Rightarrow> bool \<Rightarrow> RetrievedChunk list io" where
  "retrieve_relevant_chunks svc question top_k score_threshold active_only =
     io_bind (generate_embedding (rs_gemini svc) question)
       (\<lambda>question_embedding.
          if active_only then
            io_bind (io_call DbSelectActivePolicyIds (ms_active_policy_ids (rs_db svc)))
              (\<lambda>policy_ids.
                 if policy_ids = [] then io_return []
                 else search_and_enrich svc question_embedding top_k score_threshold
                        (Some policy_ids))
          else search_and_enrich svc question_embedding top_k score_threshold None)"

text \<open>Decimal digits of a natural number, for the f-string \<open>[Source {i}]\<close>.\<close>

fun str_of_nat :: "nat \<Rightarrow> string" where
  "str_of_nat n =
     (if n < 10 then [''0123456789'' ! n]
      else str_of_nat (n div 10) @ [''0123456789'' ! (n mod 10)])"

declare str_of_nat.simps [simp del]

fun py_join :: "string \<Rightarrow> string list \<Rightarrow> string" where
  "py_join sep [] = []"
| "py_join sep [x] = x"
| "py_join sep (x # y # ys) = x @ sep @ py_join sep (y # ys)"

text \<open>
  \<open>format_context\<close>. \<open>if chunk.section_name\<close> is false for \<open>None\<close> and for the empty
  string.
\<close>

definition context_part :: "nat \<Rightarrow> RetrievedChunk \<Rightarrow> string" where
  "context_part i chunk =
     ''[Source '' @ str_of_nat i @ ''] '' @ rc_policy_name chunk @
     '' (v'' @ rc_policy_version chunk @ '')'' @
     (case rc_section_name chunk of
        None \<Rightarrow> []
      | Some s \<Rightarrow> if s = [] then [] else '' - '' @ s) @
     [CHR 0x0A] @ rc_chunk_text chunk @ [CHR 0x0A]"

definition format_context :: "RetrievedChunk list \<Rightarrow> string" where
  "format_context chunks =
     (if chunks = [] then ''No relevant policy information found.''
      else py_join ([CHR 0x0A] @ ''---'' @ [CHR 0x0A, CHR 0x0A])
             (map (\<lambda>(i, chunk). context_part i chunk)
                (zip [1 ..< Suc (length chunks)] chunks)))"

text \<open>
  \<open>round(x, 3)\<close> on the real number \<open>x\<close>: to the nearest multiple of \<open>0.001\<close>, a tie to
  the even one.
\<close>

definition py_round3 :: "real \<Rightarrow> real" where
  "py_round3 x =
     (if x * 1000 - real_of_int \<lfloor>x * 1000\<rfloor> < 1 / 2 then real_of_int \<lfloor>x * 1000\<rfloor> / 1000
      else if x * 1000 - real_of_int \<lfloor>x * 1000\<rfloor> > 1 / 2
        then real_of_int (\<lfloor>x * 1000\<rfloor> + 1) / 1000
      else if even \<lfloor>x * 1000\<rfloor> then real_of_int \<lfloor>x * 1000\<rfloor> / 1000
      else real_of_int (\<lfloor>x * 1000\<rfloor> + 1) / 1000)"

definition format_sources :: "RetrievedChunk list \<Rightarrow> source_citation list" where
  "format_sources chunks =
     map (\<lambda>chunk.
            \<lparr> src_policy = rc_policy_name chunk,
              src_version = rc_policy_version chunk,
              src_section =
                (case rc_section_name chunk of
                   None \<Rightarrow> ''General''
                 | Some s \<Rightarrow> if s = [] then ''General'' else s),
              src_relevance_score = py_round3 (rc_relevance_score chunk) \<rparr>)
         chunks"

section \<open>Answer composer (rag\_service.py)\<close>

text \<open>
  \<open>RAGChatService\<close>. The prompt templates are files outside the source tree, read at
  construction; \<open>cs_format_system_prompt context\<close> stands for
  \<^verbatim>\<open>self.system_prompt_template.format(context=context)\<close> and
  \<open>cs_format_user_prompt question\<close> for
  \<^verbatim>\<open>self.user_prompt_template.format(question=question)\<close>; \<open>str.format\<close> raises on a
  template with other fields or unbalanced braces. \<open>cs_audit_logger\<close> is
  \<open>AuditLoggingService.log_query\<close>, which may raise.
\<close>

record RAGChatService =
  cs_gemini :: GeminiService
  cs_retrieval :: RAGRetrievalService
  cs_enable_audit_logging :: bool
  cs_audit_logger :: "(audit_entry \<Rightarrow> error + unit) option"
  cs_format_system_prompt :: "string \<Rightarrow> error + string"
  cs_format_user_prompt :: "string \<Rightarrow> error + string"

record answer_result =
  ar_answer :: string
  ar_sources :: "source_citation list"
  ar_confidence :: string
  ar_chunks_retrieved :: int

definition escalation_message :: string where
  "escalation_message =
     ''I cannot find this in our current policies. '' @
     ''Please escalate to your manager or on-call coordinator for guidance.''"

text \<open>
  \<open>_log_query\<close>: returns without logging when audit logging is off or when \<open>user_id\<close> or
  \<open>user_role\<close> is missing or empty; an exception of the logger is caught.
\<close>

definition log_query ::
  "RAGChatService \<Rightarrow> string \<Rightarrow> string \<Rightarrow> source_citation list \<Rightarrow> string \<Rightarrow>
    string option \<Rightarrow> string option \<Rightarrow> string option \<Rightarrow> unit io" where
  "log_query svc question answer sources confidence user_id user_role service_id =
     (case cs_audit_logger svc of
        None \<Rightarrow> io_return ()
      | Some audit_log_query \<Rightarrow>
          if \<not> cs_enable_audit_logging svc then io_return ()
          else
            (case (user_id, user_role) of
               (Some uid, Some role) \<Rightarrow>
                 if uid = [] \<or> role = [] then io_return ()
                 else
                   io_try
                     (io_call
                        (AuditLogQuery
                           \<lparr> ae_user_id = uid, ae_user_role = role,
                             ae_question = question, ae_answer = answer,
                             ae_retrieved_chunks = sources, ae_service_id = service_id,
                             ae_confidence = confidence \<rparr>)
                        (audit_log_query
                           \<lparr> ae_user_id = uid, ae_user_role = role,
                             ae_question = question, ae_answer = answer,
                             ae_retrieved_chunks = sources, ae_service_id = service_id,
                             ae_confidence = confidence \<rparr>))
                     (\<lambda>e. io_return ())
             | _ \<Rightarrow> io_return ()))"

text \<open>The \<open>try\<close> block of \<open>answer_question\<close>.\<close>

definition no_chunks_result :: answer_result where
  "no_chunks_result =
     \<lparr> ar_answer = escalation_message, ar_sources = [], ar_confidence = ''none'',
       ar_chunks_retrieved = 0 \<rparr>"

definition error_result :: answer_result where
  "error_result =
     \<lparr> ar_answer = error_fallback_message, ar_sources = [], ar_confidence = ''error'',
       ar_chunks_retrieved = 0 \<rparr>"

definition answer_question_try ::
  "RAGChatService \<Rightarrow> string \<Rightarrow> string option \<Rightarrow> string option \<Rightarrow> string option \<Rightarrow>
    int \<Rightarrow> real \<Rightarrow> real \<Rightarrow> answer_result io" where
  "answer_question_try svc question user_id user_role service_id top_k score_threshold
      temperature =
     io_bind (retrieve_relevant_chunks (cs_retrieval svc) question top_k score_threshold True)
       (\<lambda>chunks.
          if chunks = [] then
            io_bind
              (log_query svc question (ar_answer no_chunks_result)
                 (ar_sources no_chunks_result) (ar_confidence no_chunks_result)
                 user_id user_role service_id)
              (\<lambda>_. io_return no_chunks_result)
          else
            io_bind (io_raise_or (cs_format_system_prompt svc (format_context chunks)))
              (\<lambda>system_prompt.
            io_bind (io_raise_or (cs_format_user_prompt svc question))
              (\<lambda>user_prompt.
            io_bind (generate_chat_response (cs_gemini svc) system_prompt user_prompt
                       temperature 2048)
              (\<lambda>answer.
            io_bind
              (log_query svc question answer (format_sources chunks)
                 (calculate_confidence chunks) user_id user_role service_id)
              (\<lambda>_.
                 io_return
                   \<lparr> ar_answer = answer,
                     ar_sources = format_sources chunks,
                     ar_confidence = calculate_confidence chunks,
                     ar_chunks_retrieved = int (length chunks) \<rparr>)))))"

text \<open>
  \<open>answer_question\<close>: the \<open>except Exception\<close> clause logs the query and returns the
  fallback result.
\<close>

definition answer_question ::
  "RAGChatService \<Rightarrow> string \<Rightarrow> string option \<Rightarrow> string option \<Rightarrow> string option \<Rightarrow>
    int \<Rightarrow> real \<Rightarrow> real \<Rightarrow> answer_result io" where
  "answer_question svc question user_id user_role service_id top_k score_threshold
      temperature =
     io_try
       (answer_question_try svc question user_id user_role service_id top_k
          score_threshold temperature)
       (\<lambda>e.
          io_bind
            (log_query svc question (ar_answer error_result) (ar_sources error_result)
               (ar_confidence error_result) user_id user_role service_id)
            (\<lambda>_. io_return error_result))"

text \<open>
  Fragments of the streamed answer. The last fragment of a successful stream is the
  string \<^verbatim>\<open>\n\n__SOURCES__:{"sources":...,"confidence":"..."}\<close>; it is represented by the
  values interpolated into it.
\<close>

datatype fragment = Text string | SourcesSidecar "source_citation list" string

text \<open>
  \<open>answer_question_stream\<close>: an asynchronous generator. Its \<open>except Exception\<close> clause
  yields the fallback text, so the generator itself never raises; the result is the list
  of fragments it yields and the events of the run.
\<close>

definition answer_question_stream ::
  "RAGChatService \<Rightarrow> string \<Rightarrow> int \<Rightarrow> real \<Rightarrow> real \<Rightarrow> fragment list \<times> event list" where
  "answer_question_stream svc question top_k score_threshold temperature =
     (case retrieve_relevant_chunks (cs_retrieval svc) question top_k score_threshold True of
        (Inl e, evs) \<Rightarrow> ([Text error_fallback_message], evs)
      | (Inr chunks, evs) \<Rightarrow>
          if chunks = [] then ([Text escalation_message], evs)
          else
            (case cs_format_system_prompt svc (format_context chunks) of
               Inl e \<Rightarrow> ([Text error_fallback_message], evs)
             | Inr system_prompt \<Rightarrow>
                 (case cs_format_user_prompt svc question of
                    Inl e \<Rightarrow> ([Text error_fallback_message], evs)
                  | Inr user_prompt \<Rightarrow>
                      (case generate_chat_response_stream (cs_gemini svc) system_prompt
                              user_prompt temperature 2048 of
                         ((texts, Some e), evs') \<Rightarrow>
                           (map Text texts @ [Text error_fallback_message], evs @ evs')
                       | ((texts, None), evs') \<Rightarrow>
                           (map Text texts @
                            [SourcesSidecar (format_sources chunks)
                               (calculate_confidence chunks)],
                            evs @ evs')))))"

text \<open>
  What a consumer of the stream can read as the reported confidence: the confidence of
  the sidecar fragment, if the stream carries one.
\<close>

fun stream_confidence :: "fragment list \<Rightarrow> string option" where
  "stream_confidence [] = None"
| "stream_confidence (Text t # fs) = stream_confidence fs"
| "stream_confidence (SourcesSidecar srcs c # fs) =
     (case stream_confidence fs of None \<Rightarrow> Some c | Some c' \<Rightarrow> Some c')"

text \<open>Whether a run called the generation capability.\<close>

fun is_generation_call :: "event \<Rightarrow> bool" where
  "is_generation_call (GenerateContent r) = True"
| "is_generation_call (GenerateContentStream r) = True"
| "is_generation_call _ = False"

fun is_search_call :: "event \<Rightarrow> bool" where
  "is_search_call (QdrantSearch r) = True"
| "is_search_call _ = False"

section \<open>Concrete services used to instantiate the theorems\<close>

definition fire_policy :: Policy where
  "fire_policy =
     \<lparr> p_id = 1, p_name = ''Fire Safety'', p_version = ''1'',
       p_file_path = ''policies/Fire Safety_1.pdf'', p_uploaded_by = None,
       p_effective_from = 0, p_effective_to = None, p_status = ''active'', p_tags = [] \<rparr>"

definition fire_point :: ScoredPoint where
  "fire_point =
     \<lparr> sp_id = ''e1'', sp_score = 0.9, sp_policy_id = 1,
       sp_chunk_text = ''In case of fire, leave the building.'', sp_chunk_index = 0,
       sp_section_name = Some ''Evacuation'', sp_metadata = [] \<rparr>"

text \<open>A provider that answers every request.\<close>

definition working_client :: gemini_client where
  "working_client =
     \<lparr> gc_embed_content = (\<lambda>batch. Inr (map (\<lambda>t. [1, 0]) batch)),
       gc_generate_content = (\<lambda>r. Inr ''Leave the building [Source 1].''),
       gc_generate_content_stream = (\<lambda>r. ([''Leave the '', ''building.''], None)) \<rparr>"

text \<open>A provider that embeds but whose generation calls raise.\<close>

definition failing_generation_client :: gemini_client where
  "failing_generation_client =
     \<lparr> gc_embed_content = (\<lambda>batch. Inr (map (\<lambda>t. [1, 0]) batch)),
       gc_generate_content = (\<lambda>r. Inl (ExternalError ''503 unavailable'')),
       gc_generate_content_stream = (\<lambda>r. ([], Some (ExternalError ''503 unavailable''))) \<rparr>"

text \<open>A provider whose embedding calls raise.\<close>

definition embedding_down_client :: gemini_client where
  "embedding_down_client =
     \<lparr> gc_embed_content = (\<lambda>batch. Inl (ExternalError ''503 unavailable'')),
       gc_generate_content = (\<lambda>r. Inr ''Leave the building [Source 1].''),
       gc_generate_content_stream = (\<lambda>r. ([''Leave the '', ''building.''], None)) \<rparr>"

definition example_qdrant :: QdrantService where
  "example_qdrant =
     \<lparr> qd_client = Some \<lparr> qc_search = (\<lambda>r. Inr [fire_point]),
                          qc_upsert_error = (\<lambda>batch. None) \<rparr>,
       qd_collection_name = ''voyage_policies'' \<rparr>"

definition store_with_fire_policy :: metadata_store where
  "store_with_fire_policy =
     \<lparr> ms_active_policy_ids = Inr [1],
       ms_get_policy = (\<lambda>i. Inr (if i = 1 then Some fire_policy else None)) \<rparr>"

definition store_without_active :: metadata_store where
  "store_without_active =
     \<lparr> ms_active_policy_ids = Inr [], ms_get_policy = (\<lambda>i. Inr None) \<rparr>"

definition example_retrieval :: "gemini_client \<Rightarrow> metadata_store \<Rightarrow> RAGRetrievalService" where
  "example_retrieval client db =
     \<lparr> rs_gemini = \<lparr> gm_client = Some client \<rparr>, rs_qdrant = example_qdrant, rs_db = db \<rparr>"

definition example_chat :: "gemini_client \<Rightarrow> metadata_store \<Rightarrow> RAGChatService" where
  "example_chat client db =
     \<lparr> cs_gemini = \<lparr> gm_client = Some client \<rparr>,
       cs_retrieval = example_retrieval client db,
       cs_enable_audit_logging = True,
       cs_audit_logger = Some (\<lambda>entry. Inr ()),
       cs_format_system_prompt = (\<lambda>context. Inr (''Context: '' @ context)),
       cs_format_user_prompt = (\<lambda>question. Inr (''Question: '' @ question)) \<rparr>"

definition fire_chunk :: RetrievedChunk where
  "fire_chunk =
     \<lparr> rc_chunk_text = ''In case of fire, leave the building.'',
       rc_policy_id = 1, rc_policy_name = ''Fire Safety'', rc_policy_version = ''1'',
       rc_section_name = Some ''Evacuation'', rc_chunk_index = 0,
       rc_relevance_score = 0.9, rc_embedding_id = ''e1'' \<rparr>"

definition scored_chunk :: "real \<Rightarrow> RetrievedChunk" where
  "scored_chunk s = fire_chunk \<lparr> rc_relevance_score := s \<rparr>"

section \<open>Strings, slices and regular expressions as Python has them\<close>

text \<open>
  Texts are lists of characters with code points below 256. On these, \<open>str.isspace\<close>,
  \<open>str.strip\<close>, \<open>str.split\<close> and the regular-expression class \<open>\s\<close> all use the same set
  of whitespace characters: code points 9 to 13, 28 to 32, 133 and 160.
\<close>

definition py_isspace :: "char \<Rightarrow> bool" where
  "py_isspace c \<longleftrightarrow>
     c \<in> set [CHR 0x09, CHR 0x0A, CHR 0x0B, CHR 0x0C, CHR 0x0D, CHR 0x1C, CHR 0x1D,
               CHR 0x1E, CHR 0x1F, CHR 0x20, CHR 0x85, CHR 0xA0]"

definition py_strip :: "string \<Rightarrow> string" where
  "py_strip s = rev (dropWhile py_isspace (rev (dropWhile py_isspace s)))"

text \<open>
  \<open>len(s.split())\<close>: the number of maximal runs of non-whitespace characters. The flag
  says whether the previous character belonged to a word.
\<close>

fun count_words :: "bool \<Rightarrow> string \<Rightarrow> nat" where
  "count_words in_word [] = 0"
| "count_words in_word (c # cs) =
     (if py_isspace c then count_words False cs
      else (if in_word then 0 else 1) + count_words True cs)"

definition py_word_count :: "string \<Rightarrow> nat" where
  "py_word_count s = count_words False s"

text \<open>
  The slice \<open>xs[a:b]\<close> for arbitrary integers: a negative index counts from the end, and
  both indices are clamped to the list.
\<close>

definition py_slice_index :: "nat \<Rightarrow> int \<Rightarrow> nat" where
  "py_slice_index n a = (if a < 0 then nat (max (a + int n) 0) else min (nat a) n)"

definition py_slice :: "'a list \<Rightarrow> int \<Rightarrow> int \<Rightarrow> 'a list" where
  "py_slice xs a b =
     take (py_slice_index (length xs) b - py_slice_index (length xs) a)
       (drop (py_slice_index (length xs) a) xs)"

text \<open>
  Regular expressions, as far as the patterns of this program use them: character
  classes, the anchors \<open>^\<close> and \<open>$\<close> in multi-line mode, \<open>^\<close> in single-line mode,
  sequence, ordered alternation, and greedy or lazy bounded repetition.
\<close>

datatype regex =
    Chr "char \<Rightarrow> bool"
  | Bol
  | Eol
  | Bos
  | Seq regex regex
  | Alt regex regex
  | Rep bool nat "nat option" regex

text \<open>
  A matcher state is the character before the current position (\<open>None\<close> at the start of
  the subject) and the rest of the subject. The matcher backtracks as Python's does:
  \<open>re_run r k prev rest\<close> matches \<open>r\<close> at the current position and hands every state in
  which the match can end to the continuation \<open>k\<close>, in the order of preference, until
  \<open>k\<close> accepts one; the answer is what \<open>k\<close> answers, or \<open>None\<close> when no way of matching
  satisfies \<open>k\<close>.

  Repetition: a greedy repetition tries one more iteration before it tries to stop, a
  lazy one the other way round. Every repeated sub-pattern of this program consumes at
  least one character, so no more iterations than there are characters left can occur;
  the list \<open>fuel\<close>, initially the rest of the subject, counts them down.
\<close>

type_synonym 'r re_cont = "char option \<Rightarrow> string \<Rightarrow> 'r option"

fun rep_run ::
  "('r re_cont \<Rightarrow> 'r re_cont) \<Rightarrow> bool \<Rightarrow> nat \<Rightarrow> nat option \<Rightarrow> string \<Rightarrow> 'r re_cont \<Rightarrow> 'r re_cont"
  where
  "rep_run step greedy lo hi [] k prev rest = (if lo = 0 then k prev rest else None)"
| "rep_run step greedy lo hi (f # fuel) k prev rest =
     (if greedy then
        (case (if hi = Some 0 then None
               else step (rep_run step greedy (lo - 1) (map_option (\<lambda>h. h - 1) hi) fuel k)
                      prev rest) of
           Some x \<Rightarrow> Some x
         | None \<Rightarrow> if lo = 0 then k prev rest else None)
      else
        (case (if lo = 0 then k prev rest else None) of
           Some x \<Rightarrow> Some x
         | None \<Rightarrow>
             if hi = Some 0 then None
             else step (rep_run step greedy (lo - 1) (map_option (\<lambda>h. h - 1) hi) fuel k)
                    prev rest))"

fun re_run :: "regex \<Rightarrow> 'r re_cont \<Rightarrow> 'r re_cont" where
  "re_run (Chr P) k prev rest =
     (case rest of [] \<Rightarrow> None | c # cs \<Rightarrow> if P c then k (Some c) cs else None)"
| "re_run Bol k prev rest =
     (if prev = None \<or> prev = Some (CHR 0x0A) then k prev rest else None)"
| "re_run Eol k prev rest =
     (case rest of [] \<Rightarrow> k prev rest
      | c # cs \<Rightarrow> if c = CHR 0x0A then k prev rest else None)"
| "re_run Bos k prev rest = (if prev = None then k prev rest else None)"
| "re_run (Seq a b) k prev rest = re_run a (re_run b k) prev rest"
| "re_run (Alt a b) k prev rest =
     (case re_run a k prev rest of Some x \<Rightarrow> Some x | None \<Rightarrow> re_run b k prev rest)"
| "re_run (Rep greedy lo hi r) k prev rest =
     rep_run (re_run r) greedy lo hi rest k prev rest"

text \<open>The length of the match that starts at the current position, if there is one.\<close>

definition re_match_length :: "regex \<Rightarrow> char option \<Rightarrow> string \<Rightarrow> nat option" where
  "re_match_length r prev rest =
     map_option (\<lambda>rs. length rest - length rs) (re_run r (\<lambda>p rs. Some rs) prev rest)"

text \<open>
  \<open>re.search\<close>: the leftmost match, as (start, end). \<open>pos\<close> is the index of the current
  position.
\<close>

fun re_search_from :: "regex \<Rightarrow> char option \<Rightarrow> string \<Rightarrow> nat \<Rightarrow> (nat \<times> nat) option" where
  "re_search_from r prev [] pos =
     (case re_match_length r prev [] of None \<Rightarrow> None | Some n \<Rightarrow> Some (pos, pos + n))"
| "re_search_from r prev (c # cs) pos =
     (case re_match_length r prev (c # cs) of
        None \<Rightarrow> re_search_from r (Some c) cs (Suc pos)
      | Some n \<Rightarrow> Some (pos, pos + n))"

definition re_search :: "regex \<Rightarrow> string \<Rightarrow> (nat \<times> nat) option" where
  "re_search r s = re_search_from r None s 0"

text \<open>
  \<open>re.finditer\<close>: the successive non-overlapping matches from left to right, as (start,
  end) pairs. \<open>skip\<close> counts the characters that still belong to the previous match. None
  of the patterns of this program matches the empty string, so Python's special rule
  for a search that resumes after an empty match is never exercised.
\<close>

fun re_finditer_from :: "regex \<Rightarrow> char option \<Rightarrow> string \<Rightarrow> nat \<Rightarrow> nat \<Rightarrow> (nat \<times> nat) list" where
  "re_finditer_from r prev [] pos skip =
     (if skip = 0 then
        (case re_match_length r prev [] of None \<Rightarrow> [] | Some n \<Rightarrow> [(pos, pos + n)])
      else [])"
| "re_finditer_from r prev (c # cs) pos skip =
     (if skip > 0 then re_finditer_from r (Some c) cs (Suc pos) (skip - 1)
      else
        (case re_match_length r prev (c # cs) of
           None \<Rightarrow> re_finditer_from r (Some c) cs (Suc pos) 0
         | Some n \<Rightarrow> (pos, pos + n) # re_finditer_from r (Some c) cs (Suc pos) (n - 1)))"

definition re_finditer :: "regex \<Rightarrow> string \<Rightarrow> (nat \<times> nat) list" where
  "re_finditer r s = re_finditer_from r None s 0 0"

text \<open>\<open>re.sub(pattern, repl, s)\<close> for a replacement without group references.\<close>

fun re_sub_from :: "regex \<Rightarrow> string \<Rightarrow> char option \<Rightarrow> string \<Rightarrow> nat \<Rightarrow> string" where
  "re_sub_from r repl prev [] skip =
     (if skip = 0 then
        (case re_match_length r prev [] of None \<Rightarrow> [] | Some n \<Rightarrow> repl)
      else [])"
| "re_sub_from r repl prev (c # cs) skip =
     (if skip > 0 then re_sub_from r repl (Some c) cs (skip - 1)
      else
        (case re_match_length r prev (c # cs) of
           None \<Rightarrow> c # re_sub_from r repl (Some c) cs 0
         | Some n \<Rightarrow>
             if n = 0 then repl @ c # re_sub_from r repl (Some c) cs 0
             else repl @ re_sub_from r repl (Some c) cs (n - 1)))"

definition re_sub :: "regex \<Rightarrow> string \<Rightarrow> string \<Rightarrow> string" where
  "re_sub r repl s = re_sub_from r repl None s 0"

text \<open>Pattern building blocks.\<close>

definition re_lit :: "char \<Rightarrow> regex" where
  "re_lit c = Chr (\<lambda>x. x = c)"

text \<open>A letter under \<open>re.IGNORECASE\<close>: either case matches.\<close>

definition re_lit_ic :: "char \<Rightarrow> char \<Rightarrow> regex" where
  "re_lit_ic upper lower = Chr (\<lambda>x. x = upper \<or> x = lower)"

definition py_isdigit :: "char \<Rightarrow> bool" where
  "py_isdigit c \<longleftrightarrow> c \<in> set ''0123456789''"

definition is_ascii_upper :: "char \<Rightarrow> bool" where
  "is_ascii_upper c \<longleftrightarrow> c \<in> set ''ABCDEFGHIJKLMNOPQRSTUVWXYZ''"

definition not_newline :: "char \<Rightarrow> bool" where
  "not_newline c \<longleftrightarrow> c \<noteq> CHR 0x0A"

fun re_seq :: "regex list \<Rightarrow> regex" where
  "re_seq [] = Rep True 0 (Some 0) Bos"
| "re_seq [r] = r"
| "re_seq (r # r' # rs) = Seq r (re_seq (r' # rs))"

definition re_plus :: "regex \<Rightarrow> regex" where
  "re_plus r = Rep True 1 None r"

definition re_star :: "regex \<Rightarrow> regex" where
  "re_star r = Rep True 0 None r"

definition re_star_lazy :: "regex \<Rightarrow> regex" where
  "re_star_lazy r = Rep False 0 None r"

definition re_opt :: "regex \<Rightarrow> regex" where
  "re_opt r = Rep True 0 (Some 1) r"

section \<open>Text cleaning, section detection and chunking (pdf\_parser.py)\<close>

text \<open>
  The five substitutions of \<open>clean_text\<close> and the final \<open>strip\<close>:
  \<^verbatim>\<open>^.*?\|.*?\|.*?Page\s+\d+.*?$\<close> (multi-line, ignoring case),
  \<^verbatim>\<open>^\s*\d+\s*$\<close> (multi-line), \<^verbatim>\<open>Page\s+\d+\s+of\s+\d+\<close> (ignoring case),
  \<^verbatim>\<open> +\<close> and \<^verbatim>\<open>\n{3,}\<close>.
\<close>

definition header_footer_pattern :: regex where
  "header_footer_pattern =
     re_seq [Bol, re_star_lazy (Chr not_newline), re_lit (CHR ''|''),
             re_star_lazy (Chr not_newline), re_lit (CHR ''|''),
             re_star_lazy (Chr not_newline),
             re_lit_ic (CHR ''P'') (CHR ''p''), re_lit_ic (CHR ''A'') (CHR ''a''),
             re_lit_ic (CHR ''G'') (CHR ''g''), re_lit_ic (CHR ''E'') (CHR ''e''),
             re_plus (Chr py_isspace), re_plus (Chr py_isdigit),
             re_star_lazy (Chr not_newline), Eol]"

definition page_number_pattern :: regex where
  "page_number_pattern =
     re_seq [Bol, re_star (Chr py_isspace), re_plus (Chr py_isdigit),
             re_star (Chr py_isspace), Eol]"

definition page_x_of_y_pattern :: regex where
  "page_x_of_y_pattern =
     re_seq [re_lit_ic (CHR ''P'') (CHR ''p''), re_lit_ic (CHR ''A'') (CHR ''a''),
             re_lit_ic (CHR ''G'') (CHR ''g''), re_lit_ic (CHR ''E'') (CHR ''e''),
             re_plus (Chr py_isspace), re_plus (Chr py_isdigit), re_plus (Chr py_isspace),
             re_lit_ic (CHR ''O'') (CHR ''o''), re_lit_ic (CHR ''F'') (CHR ''f''),
             re_plus (Chr py_isspace), re_plus (Chr py_isdigit)]"

definition spaces_pattern :: regex where
  "spaces_pattern = re_plus (re_lit (CHR '' ''))"

definition newlines_pattern :: regex where
  "newlines_pattern = Rep True 3 None (re_lit (CHR 0x0A))"

definition clean_text :: "string \<Rightarrow> string" where
  "clean_text text =
     py_strip
       (re_sub newlines_pattern [CHR 0x0A, CHR 0x0A]
          (re_sub spaces_pattern '' ''
             (re_sub page_x_of_y_pattern []
                (re_sub page_number_pattern []
                   (re_sub header_footer_pattern [] text)))))"

text \<open>
  The four heading patterns of \<open>detect_sections\<close>, joined by \<open>|\<close> in this order and used
  in multi-line mode:
  \<^verbatim>\<open>^(\d+(?:\.\d+)*\.?\s+[A-Z][^\n]{0,100})$\<close>,
  \<^verbatim>\<open>^(Section\s+\d+:\s+[A-Z][^\n]{0,100})$\<close>,
  \<^verbatim>\<open>^(#{1,3}\s+[A-Z][^\n]{0,100})$\<close> and
  \<^verbatim>\<open>^([A-Z][A-Z\s]{10,100})$\<close>.
\<close>

definition title_rest :: "regex list" where
  "title_rest = [Chr is_ascii_upper, Rep True 0 (Some 100) (Chr not_newline), Eol]"

definition numbered_heading :: regex where
  "numbered_heading =
     re_seq ([Bol, re_plus (Chr py_isdigit),
              re_star (Seq (re_lit (CHR ''.'')) (re_plus (Chr py_isdigit))),
              re_opt (re_lit (CHR ''.'')), re_plus (Chr py_isspace)] @ title_rest)"

definition section_heading :: regex where
  "section_heading =
     re_seq ([Bol, re_lit (CHR ''S''), re_lit (CHR ''e''), re_lit (CHR ''c''),
              re_lit (CHR ''t''), re_lit (CHR ''i''), re_lit (CHR ''o''), re_lit (CHR ''n''),
              re_plus (Chr py_isspace), re_plus (Chr py_isdigit), re_lit (CHR '':''),
              re_plus (Chr py_isspace)] @ title_rest)"

definition markdown_heading :: regex where
  "markdown_heading =
     re_seq ([Bol, Rep True 1 (Some 3) (re_lit (CHR ''#'')), re_plus (Chr py_isspace)]
             @ title_rest)"

definition caps_heading :: regex where
  "caps_heading =
     re_seq [Bol, Chr is_ascii_upper,
             Rep True 10 (Some 100) (Chr (\<lambda>c. is_ascii_upper c \<or> py_isspace c)), Eol]"

definition combined_pattern :: regex where
  "combined_pattern =
     Alt numbered_heading (Alt section_heading (Alt markdown_heading caps_heading))"

text \<open>\<^verbatim>\<open>^#{1,3}\s+\<close>, single-line: the markdown marker removed from a section name.\<close>

definition markdown_marker :: regex where
  "markdown_marker = re_seq [Bos, Rep True 1 (Some 3) (re_lit (CHR ''#'')), re_plus (Chr py_isspace)]"

definition section_name_of :: "string \<Rightarrow> nat \<times> nat \<Rightarrow> string" where
  "section_name_of text m =
     py_strip (re_sub markdown_marker [] (py_strip (take (snd m - fst m) (drop (fst m) text))))"

text \<open>
  The second loop of \<open>detect_sections\<close>: the end of a section is the start of the next
  one, the end of the last section is the length of the text.
\<close>

fun set_end_positions :: "(string \<times> int \<times> int) list \<Rightarrow> int \<Rightarrow> (string \<times> int \<times> int) list" where
  "set_end_positions [] n = []"
| "set_end_positions [(name, start, e)] n = [(name, start, n)]"
| "set_end_positions ((name, start, e) # (name', start', e') # rest) n =
     (name, start, start') # set_end_positions ((name', start', e') # rest) n"

definition detect_sections :: "string \<Rightarrow> (string \<times> int \<times> int) list" where
  "detect_sections text =
     set_end_positions
       (map (\<lambda>m. (section_name_of text m, int (fst m), - 1)) (re_finditer combined_pattern text))
       (int (length text))"

text \<open>The dataclass \<open>ChunkMetadata\<close>.\<close>

record ChunkMetadata =
  cm_section_name :: "string option"
  cm_page_number :: int
  cm_chunk_index :: int
  cm_word_count :: int
  cm_char_count :: int

text \<open>
  The body of the \<open>while\<close> loop of \<open>chunk_text\<close> up to the size test. \<open>window_end\<close> is the
  final value of \<open>chunk_end\<close>: \<open>min(position + chunk_size, len(section_text))\<close>, moved
  past the first sentence boundary \<^verbatim>\<open>[.!?]\s\<close> found in the next 100 characters when the
  window does not reach the end of the section. \<open>window_chunk\<close> is the final value of
  \<open>chunk\<close>.
\<close>

definition sentence_boundary :: regex where
  "sentence_boundary = Seq (Chr (\<lambda>c. c \<in> set ''.!?'')) (Chr py_isspace)"

definition window_end :: "string \<Rightarrow> int \<Rightarrow> int \<Rightarrow> int" where
  "window_end section_text chunk_size position =
     (if min (position + chunk_size) (int (length section_text)) < int (length section_text)
      then
        (case re_search sentence_boundary
                (py_slice section_text
                   (min (position + chunk_size) (int (length section_text)))
                   (min (position + chunk_size) (int (length section_text)) + 100)) of
           None \<Rightarrow> min (position + chunk_size) (int (length section_text))
         | Some (a, b) \<Rightarrow> min (position + chunk_size) (int (length section_text)) + int b)
      else min (position + chunk_size) (int (length section_text)))"

definition window_chunk :: "string \<Rightarrow> int \<Rightarrow> int \<Rightarrow> string" where
  "window_chunk section_text chunk_size position =
     py_strip (py_slice section_text position (window_end section_text chunk_size position))"

definition chunk_metadata :: "string \<Rightarrow> int \<Rightarrow> string \<Rightarrow> ChunkMetadata" where
  "chunk_metadata section_name chunk_index chunk =
     \<lparr> cm_section_name = Some section_name,
       cm_page_number = 0,
       cm_chunk_index = chunk_index,
       cm_word_count = int (py_word_count chunk),
       cm_char_count = int (length chunk) \<rparr>"

text \<open>
  The \<open>while\<close> loop over one section. It returns the extended list of chunks and the next
  chunk index. The position advances by \<open>chunk_size - overlap\<close>, which need not be
  positive: the loop may run forever, and \<open>None\<close> is that outcome.
\<close>

partial_function (option) chunk_section ::
  "string \<Rightarrow> string \<Rightarrow> int \<Rightarrow> int \<Rightarrow> int \<Rightarrow> int \<Rightarrow> (string \<times> ChunkMetadata) list \<Rightarrow>
    ((string \<times> ChunkMetadata) list \<times> int) option" where
  "chunk_section section_text section_name chunk_size overlap position chunk_index chunks =
     (if \<not> position < int (length section_text) then Some (chunks, chunk_index)
      else if length (window_chunk section_text chunk_size position) < 100
        then Some (chunks, chunk_index)
      else if position + (chunk_size - overlap) \<ge> int (length section_text)
        then Some (chunks @
                     [(window_chunk section_text chunk_size position,
                       chunk_metadata section_name chunk_index
                         (window_chunk section_text chunk_size position))],
                   chunk_index + 1)
      else chunk_section section_text section_name chunk_size overlap
             (position + (chunk_size - overlap)) (chunk_index + 1)
             (chunks @
                [(window_chunk section_text chunk_size position,
                  chunk_metadata section_name chunk_index
                    (window_chunk section_text chunk_size position))]))"

declare chunk_section.simps [code]

text \<open>The \<open>for\<close> loop over the sections; a section that is empty after \<open>strip\<close> is skipped.\<close>

definition section_text_of :: "string \<Rightarrow> string \<times> int \<times> int \<Rightarrow> string" where
  "section_text_of text sec = py_strip (py_slice text (fst (snd sec)) (snd (snd sec)))"

fun chunk_sections ::
  "string \<Rightarrow> (string \<times> int \<times> int) list \<Rightarrow> int \<Rightarrow> int \<Rightarrow> int \<Rightarrow>
    (string \<times> ChunkMetadata) list \<Rightarrow> (string \<times> ChunkMetadata) list option" where
  "chunk_sections text [] chunk_size overlap chunk_index chunks = Some chunks"
| "chunk_sections text (sec # sections) chunk_size overlap chunk_index chunks =
     (if section_text_of text sec = []
      then chunk_sections text sections chunk_size overlap chunk_index chunks
      else
        (case chunk_section (section_text_of text sec) (fst sec) chunk_size overlap 0
                chunk_index chunks of
           None \<Rightarrow> None
         | Some (chunks', chunk_index') \<Rightarrow>
             chunk_sections text sections chunk_size overlap chunk_index' chunks'))"

text \<open>
  \<open>chunk_text\<close>. \<open>if not sections\<close> holds for \<open>None\<close> and for the empty list; the whole
  text is then the one section \<open>"Document"\<close>.
\<close>

definition effective_sections ::
  "string \<Rightarrow> (string \<times> int \<times> int) list option \<Rightarrow> (string \<times> int \<times> int) list" where
  "effective_sections text sections =
     (case sections of
        None \<Rightarrow> [(''Document'', 0, int (length text))]
      | Some [] \<Rightarrow> [(''Document'', 0, int (length text))]
      | Some (s # ss) \<Rightarrow> s # ss)"

definition chunk_text ::
  "string \<Rightarrow> (string \<times> int \<times> int) list option \<Rightarrow> int \<Rightarrow> int \<Rightarrow>
    (string \<times> ChunkMetadata) list option" where
  "chunk_text text sections chunk_size overlap =
     chunk_sections text (effective_sections text sections) chunk_size overlap 0 []"

section \<open>A concrete policy text used to instantiate the theorems\<close>

definition example_preamble :: string where
  "example_preamble =
     ''This policy applies to all staff, volunteers and visitors of'' @
     '' the service. It replaces the procedure issued in 2019.''"

definition example_section_1 :: string where
  "example_section_1 =
     ''1. Evacuation'' @ [CHR 0x0A] @
     ''When the alarm sounds, leave the building by the nearest exi'' @
     ''t and go to the assembly point in the car park. Do not stop '' @
     ''to collect belongings.''"

definition example_section_2 :: string where
  "example_section_2 =
     ''2. Reporting'' @ [CHR 0x0A] @
     ''Report every fire, however small, to the manager on duty, an'' @
     ''d record it in the incident log before the end of your shift'' @
     ''.''"

definition example_text :: string where
  "example_text =
     example_preamble @ [CHR 0x0A] @ example_section_1 @ [CHR 0x0A] @ example_section_2"

section \<open>Notions used to state the properties of the chunker\<close>

text \<open>
  A chunk list is indexed from \<open>chunk_index\<close> backwards: the next index is the length of
  the list, and the indices attached to the chunks are \<open>0, 1, 2, \<dots>\<close> in order.
\<close>

definition indexed :: "(string \<times> ChunkMetadata) list \<Rightarrow> int \<Rightarrow> bool" where
  "indexed chunks chunk_index \<longleftrightarrow>
     chunk_index = int (length chunks)
     \<and> map (\<lambda>c. cm_chunk_index (snd c)) chunks = map int [0 ..< length chunks]"

text \<open>
  The loop over a section stops at a position that is not inside the section text, or
  whose window, trimmed, is shorter than 100 characters.
\<close>

definition stops_at :: "string \<Rightarrow> int \<Rightarrow> int \<Rightarrow> bool" where
  "stops_at st cs pos \<longleftrightarrow>
     \<not> pos < int (length st) \<or> length (window_chunk st cs pos) < 100"

text \<open>The trimmed windows at \<open>pos\<close>, \<open>pos + step\<close>, \<open>\<dots>\<close>, \<open>k\<close> of them.\<close>

definition emitted_from :: "string \<Rightarrow> int \<Rightarrow> int \<Rightarrow> int \<Rightarrow> nat \<Rightarrow> string list" where
  "emitted_from st cs step pos k = map (\<lambda>j. window_chunk st cs (pos + int j * step)) [0 ..< k]"

text \<open>
  For a section text \<open>st\<close>, window number \<open>j\<close> starts at offset \<open>j * (cs - ov)\<close>.
  \<open>emitted_count st cs ov k\<close>: \<open>k\<close> is the first window number at which the loop stops,
  which makes \<open>k\<close> the number of chunks emitted for the section; \<open>section_windows\<close> are
  their texts.
\<close>

definition emitted_count :: "string \<Rightarrow> int \<Rightarrow> int \<Rightarrow> nat \<Rightarrow> bool" where
  "emitted_count st cs ov k \<longleftrightarrow>
     (\<forall>j<k. \<not> stops_at st cs (int j * (cs - ov))) \<and> stops_at st cs (int k * (cs - ov))"

definition section_windows :: "string \<Rightarrow> int \<Rightarrow> int \<Rightarrow> nat \<Rightarrow> string list" where
  "section_windows st cs ov k = map (\<lambda>j. window_chunk st cs (int j * (cs - ov))) [0 ..< k]"

text \<open>
  The character at position \<open>p\<close> of \<open>st\<close> appears in the chunk \<open>c\<close>: \<open>c\<close> occurs in \<open>st\<close> at
  an offset \<open>off\<close> such that \<open>p\<close> lies inside the occurrence.
\<close>

definition position_covered :: "string \<Rightarrow> string \<Rightarrow> nat \<Rightarrow> bool" where
  "position_covered st c p \<longleftrightarrow>
     (\<exists>off \<in> {.. p}. take (length c) (drop off st) = c \<and> off + length c \<le> length st
        \<and> p < off + length c)"

section \<open>Ingestion (policy\_ingestion.py)\<close>

text \<open>
  The metadata store as the SQLAlchemy session presents it: the committed rows of the
  two tables, the rows added in the open transaction, and the sequence that numbers new
  policies. The vector store is the list of its points.
\<close>

record db_state =
  db_policies :: "Policy list"
  db_policy_chunks :: "PolicyChunk list"
  db_pending_policies :: "Policy list"
  db_pending_chunks :: "PolicyChunk list"
  db_next_policy_id :: int

record stores =
  st_db :: db_state
  st_points :: "Point list"

datatype db_op = Flush | Commit | Refresh

text \<open>
  \<open>db.add\<close> stages a row. \<open>db.flush\<close> gives the staged policy its id from the sequence.
  \<open>db.commit\<close> makes the staged rows durable. \<open>db.rollback\<close> discards the staged rows; it
  cannot undo a commit.
\<close>

definition db_add_policy :: "Policy \<Rightarrow> db_state \<Rightarrow> db_state" where
  "db_add_policy policy db = db \<lparr> db_pending_policies := db_pending_policies db @ [policy] \<rparr>"

definition db_flush_policy :: "Policy \<Rightarrow> db_state \<Rightarrow> Policy \<times> db_state" where
  "db_flush_policy policy db =
     (policy \<lparr> p_id := db_next_policy_id db \<rparr>,
      db \<lparr> db_pending_policies :=
             butlast (db_pending_policies db) @ [policy \<lparr> p_id := db_next_policy_id db \<rparr>],
           db_next_policy_id := db_next_policy_id db + 1 \<rparr>)"

definition db_add_chunk :: "PolicyChunk \<Rightarrow> db_state \<Rightarrow> db_state" where
  "db_add_chunk chunk db = db \<lparr> db_pending_chunks := db_pending_chunks db @ [chunk] \<rparr>"

definition db_commit :: "db_state \<Rightarrow> db_state" where
  "db_commit db =
     db \<lparr> db_policies := db_policies db @ db_pending_policies db,
          db_policy_chunks := db_policy_chunks db @ db_pending_chunks db,
          db_pending_policies := [],
          db_pending_chunks := [] \<rparr>"

definition db_rollback :: "db_state \<Rightarrow> db_state" where
  "db_rollback db = db \<lparr> db_pending_policies := [], db_pending_chunks := [] \<rparr>"

text \<open>
  \<open>PolicyIngestionService\<close> with its injected collaborators. \<open>is_extract_text\<close> is
  \<open>extract_text_from_pdf\<close> (the \<open>full_text\<close> and \<open>total_pages\<close> of its result, or the
  exception of the PDF library). \<open>is_generate_embeddings_batch\<close> is the method of that
  name of the injected embedding service. \<open>is_db_fault\<close> says which session operations
  raise.
\<close>

record PolicyIngestionService =
  is_extract_text :: "string \<Rightarrow> error + string \<times> int"
  is_generate_embeddings_batch :: "string list \<Rightarrow> int \<Rightarrow> error + real list list"
  is_qdrant :: QdrantService
  is_new_id :: "nat \<Rightarrow> string"
  is_db_fault :: "db_op \<Rightarrow> error option"

record ingest_request =
  ir_pdf_source :: string
  ir_policy_name :: string
  ir_version :: string
  ir_effective_from :: date
  ir_uploaded_by :: "string option"
  ir_effective_to :: "date option"
  ir_tags :: "(string \<times> string list) list option"
  ir_file_path :: "string option"

text \<open>
  A local variable of a Python function: unbound until its first assignment, and reading
  it while unbound raises UnboundLocalError.
\<close>

datatype 'a local_var = Unbound | Bound 'a

fun read_local :: "'a local_var \<Rightarrow> error + 'a" where
  "read_local Unbound = Inl UnboundLocalError"
| "read_local (Bound v) = Inr v"

text \<open>
  The name \<open>chunk_text\<close> inside \<open>ingest_policy\<close>. The loop of step 6c,
  \<open>for i, (chunk_text, chunk_metadata) in enumerate(chunks)\<close>, assigns to it, so in the whole
  body of \<open>ingest_policy\<close> the name is a local variable of the function and not the
  function imported from \<open>pdf_parser\<close>. Step 4 reads it before anything was assigned.
\<close>

type_synonym chunker =
  "string \<Rightarrow> (string \<times> int \<times> int) list option \<Rightarrow> int \<Rightarrow> int \<Rightarrow>
    (string \<times> ChunkMetadata) list option"

definition chunk_text_at_step_4 :: "chunker local_var" where
  "chunk_text_at_step_4 = Unbound"

text \<open>
  Steps 1 to 5 of \<open>ingest_policy\<close>: extract, clean, detect sections, chunk, embed. None of
  them touches a store. The result is \<open>None\<close> if chunking does not return.
\<close>

definition ingest_prepare ::
  "PolicyIngestionService \<Rightarrow> ingest_request \<Rightarrow>
    (error + (string \<times> ChunkMetadata) list \<times> real list list) option" where
  "ingest_prepare svc req =
     (case is_extract_text svc (ir_pdf_source req) of
        Inl e \<Rightarrow> Some (Inl e)
      | Inr (full_text, total_pages) \<Rightarrow>
          if py_strip full_text = [] then Some (Inl ValueError)
          else
            let cleaned_text = clean_text full_text;
                sections = detect_sections cleaned_text
            in (case read_local chunk_text_at_step_4 of
                  Inl e \<Rightarrow> Some (Inl e)
                | Inr chunk_text_local \<Rightarrow>
                    (case chunk_text_local cleaned_text (Some sections) 800 100 of
                       None \<Rightarrow> None
                     | Some chunks \<Rightarrow>
                         if chunks = [] then Some (Inl ValueError)
                         else
                           (case is_generate_embeddings_batch svc (map fst chunks) 100 of
                              Inl e \<Rightarrow> Some (Inl e)
                            | Inr embeddings \<Rightarrow>
                                if length embeddings \<noteq> length chunks
                                then Some (Inl ValueError)
                                else Some (Inr (chunks, embeddings))))))"

text \<open>The \<open>Policy\<close> object of step 6a and the \<open>PolicyChunk\<close> objects of step 6c.\<close>

definition new_policy :: "ingest_request \<Rightarrow> Policy" where
  "new_policy req =
     \<lparr> p_id = 0,
       p_name = ir_policy_name req,
       p_version = ir_version req,
       p_file_path =
         (case ir_file_path req of
            None \<Rightarrow> ''policies/'' @ ir_policy_name req @ ''_'' @ ir_version req @ ''.pdf''
          | Some fp \<Rightarrow>
              if fp = []
              then ''policies/'' @ ir_policy_name req @ ''_'' @ ir_version req @ ''.pdf''
              else fp),
       p_uploaded_by = ir_uploaded_by req,
       p_effective_from = ir_effective_from req,
       p_effective_to = ir_effective_to req,
       p_status = ''active'',
       p_tags = (case ir_tags req of None \<Rightarrow> [] | Some tags \<Rightarrow> tags) \<rparr>"

definition new_policy_chunk :: "int \<Rightarrow> string \<times> ChunkMetadata \<Rightarrow> string \<Rightarrow> PolicyChunk" where
  "new_policy_chunk policy_id chunk embedding_id =
     \<lparr> pc_policy_id = policy_id,
       pc_chunk_text = fst chunk,
       pc_chunk_index = cm_chunk_index (snd chunk),
       pc_section_name = cm_section_name (snd chunk),
       pc_embedding_id = embedding_id,
       pc_word_count = cm_word_count (snd chunk),
       pc_char_count = cm_char_count (snd chunk),
       pc_page_number = cm_page_number (snd chunk) \<rparr>"

definition chunk_payload_metadata :: "ingest_request \<Rightarrow> string \<times> ChunkMetadata \<Rightarrow> (string \<times> json) list" where
  "chunk_payload_metadata req chunk =
     [(''word_count'', JInt (cm_word_count (snd chunk))),
      (''char_count'', JInt (cm_char_count (snd chunk))),
      (''policy_name'', JStr (ir_policy_name req)),
      (''policy_version'', JStr (ir_version req))]"

text \<open>
  The loop of step 6c: \<open>embedding_ids[i]\<close> raises IndexError when there are fewer ids
  than chunks.
\<close>

fun add_policy_chunks ::
  "int \<Rightarrow> (string \<times> ChunkMetadata) list \<Rightarrow> string list \<Rightarrow> db_state \<Rightarrow> error + db_state" where
  "add_policy_chunks policy_id [] embedding_ids db = Inr db"
| "add_policy_chunks policy_id (chunk # chunks) [] db = Inl IndexError"
| "add_policy_chunks policy_id (chunk # chunks) (embedding_id # embedding_ids) db =
     add_policy_chunks policy_id chunks embedding_ids
       (db_add_chunk (new_policy_chunk policy_id chunk embedding_id) db)"

text \<open>
  Steps 6a to 6c inside the \<open>try\<close> block: add and flush the policy, upsert the vectors,
  add the chunk rows, commit, refresh. The result carries the stores as the step that
  raised left them. These steps come after step 4.
\<close>

definition ingest_store ::
  "PolicyIngestionService \<Rightarrow> ingest_request \<Rightarrow> (string \<times> ChunkMetadata) list \<Rightarrow>
    real list list \<Rightarrow> stores \<Rightarrow> (error + Policy \<times> int) \<times> stores" where
  "ingest_store svc req chunks embeddings st =
     (case is_db_fault svc Flush of
        Some e \<Rightarrow> (Inl e, st \<lparr> st_db := db_add_policy (new_policy req) (st_db st) \<rparr>)
      | None \<Rightarrow>
          (case db_flush_policy (new_policy req) (db_add_policy (new_policy req) (st_db st)) of
             (policy, db1) \<Rightarrow>
               (case upsert_vectors (is_qdrant svc) (is_new_id svc) embeddings
                       (p_id policy) (map fst chunks)
                       (map (\<lambda>c. cm_chunk_index (snd c)) chunks)
                       (map (\<lambda>c. cm_section_name (snd c)) chunks)
                       (map (chunk_payload_metadata req) chunks) (st_points st) of
                  (Inl e, points) \<Rightarrow> (Inl e, \<lparr> st_db = db1, st_points = points \<rparr>)
                | (Inr embedding_ids, points) \<Rightarrow>
                    (case add_policy_chunks (p_id policy) chunks embedding_ids db1 of
                       Inl e \<Rightarrow> (Inl e, \<lparr> st_db = db1, st_points = points \<rparr>)
                     | Inr db2 \<Rightarrow>
                         (case is_db_fault svc Commit of
                            Some e \<Rightarrow> (Inl e, \<lparr> st_db = db2, st_points = points \<rparr>)
                          | None \<Rightarrow>
                              (case is_db_fault svc Refresh of
                                 Some e \<Rightarrow>
                                   (Inl e, \<lparr> st_db = db_commit db2, st_points = points \<rparr>)
                               | None \<Rightarrow>
                                   (Inr (policy, int (length chunks)),
                                    \<lparr> st_db = db_commit db2, st_points = points \<rparr>)))))))"

text \<open>
  \<open>ingest_policy\<close>: the \<open>except\<close> clause rolls the session back and re-raises.
\<close>

definition ingest_policy ::
  "PolicyIngestionService \<Rightarrow> ingest_request \<Rightarrow> stores \<Rightarrow>
    ((error + Policy \<times> int) \<times> stores) option" where
  "ingest_policy svc req st =
     (case ingest_prepare svc req of
        None \<Rightarrow> None
      | Some (Inl e) \<Rightarrow> Some (Inl e, st \<lparr> st_db := db_rollback (st_db st) \<rparr>)
      | Some (Inr (chunks, embeddings)) \<Rightarrow>
          (case ingest_store svc req chunks embeddings st of
             (Inl e, st') \<Rightarrow> Some (Inl e, st' \<lparr> st_db := db_rollback (st_db st') \<rparr>)
           | (Inr r, st') \<Rightarrow> Some (Inr r, st')))"

section \<open>Notions used to state the properties of ingestion\<close>

text \<open>
  The metadata store holds the same committed rows in \<open>st'\<close> as in \<open>st\<close>; nothing is
  staged in \<open>st'\<close>.
\<close>

definition metadata_unchanged :: "stores \<Rightarrow> stores \<Rightarrow> bool" where
  "metadata_unchanged st st' \<longleftrightarrow>
     db_policies (st_db st') = db_policies (st_db st)
     \<and> db_policy_chunks (st_db st') = db_policy_chunks (st_db st)"

definition nothing_staged :: "stores \<Rightarrow> bool" where
  "nothing_staged st \<longleftrightarrow>
     db_pending_policies (st_db st) = [] \<and> db_pending_chunks (st_db st) = []"

section \<open>Concrete ingestion services used to instantiate the theorems\<close>

definition example_ingestion :: "(db_op \<Rightarrow> error option) \<Rightarrow> PolicyIngestionService" where
  "example_ingestion faults =
     \<lparr> is_extract_text = (\<lambda>source. Inr (example_text, 1)),
       is_generate_embeddings_batch = (\<lambda>texts batch_size. Inr (map (\<lambda>t. [1, 0]) texts)),
       is_qdrant = example_qdrant,
       is_new_id = (\<lambda>i. ''id-'' @ str_of_nat i),
       is_db_fault = faults \<rparr>"

definition example_request :: ingest_request where
  "example_request =
     \<lparr> ir_pdf_source = ''fire_safety.pdf'', ir_policy_name = ''Fire Safety'',
       ir_version = ''1'', ir_effective_from = 739000, ir_uploaded_by = Some ''u17'',
       ir_effective_to = None, ir_tags = None, ir_file_path = None \<rparr>"

definition empty_stores :: stores where
  "empty_stores =
     \<lparr> st_db = \<lparr> db_policies = [], db_policy_chunks = [], db_pending_policies = [],
                  db_pending_chunks = [], db_next_policy_id = 1 \<rparr>,
       st_points = [] \<rparr>"

definition no_faults :: "db_op \<Rightarrow> error option" where
  "no_faults op = None"

section \<open>Properties of confidence scoring\<close>

lemma py_sum_acc: "foldl (\<lambda>acc x. acc + x) a xs = a + sum_list xs" for a :: real
  by (induction xs arbitrary: a) simp_all

lemma py_sum_sum_list: "py_sum xs = sum_list xs"
  by (simp add: py_sum_def py_sum_acc)

lemma py_max_acc:
  "foldl (\<lambda>m y. if y > m then y else m) x xs = Max (set (x # xs))" for x :: real
proof -
  have "(\<lambda>m y. if y > m then y else m) = (\<lambda>m y::real. max y m)"
    by (intro ext) (simp add: max_def)
  then have "foldl (\<lambda>m y. if y > m then y else m) x xs = fold max xs x"
    by (simp add: foldl_conv_fold)
  then show ?thesis by (simp only: Max.set_eq_fold)
qed

lemma tier_split:
  fixes mx mean :: real
  defines "t \<equiv> (if mx > 0.85 \<and> mean > 0.75 then ''high''
             else if mx > 0.70 \<and> mean > 0.65 then ''medium'' else ''low'')"
  shows "(t = ''high'' \<longleftrightarrow> mx > 0.85 \<and> mean > 0.75)
       \<and> (\<not> (mx > 0.85 \<and> mean > 0.75) \<longrightarrow> (t = ''medium'' \<longleftrightarrow> mx > 0.70 \<and> mean > 0.65))
       \<and> (\<not> (mx > 0.85 \<and> mean > 0.75) \<and> \<not> (mx > 0.70 \<and> mean > 0.65) \<longrightarrow> t = ''low'')"
proof (cases "mx > 0.85 \<and> mean > 0.75")
  case True
  then show ?thesis unfolding t_def by simp
next
  case False
  note nh = this
  show ?thesis
  proof (cases "mx > 0.70 \<and> mean > 0.65")
    case True
    with nh show ?thesis unfolding t_def by simp
  next
    case False
    with nh show ?thesis unfolding t_def by simp
  qed
qed

lemma py_max_Max: "xs \<noteq> [] \<Longrightarrow> py_max xs = Inr (Max (set xs))"
  by (cases xs) (simp_all add: py_max_acc)

text \<open>
  Claim C1 (as amended): applied to an empty list of retrieved chunks, the confidence
  scoring function returns the tier \<open>"low"\<close>. (The tier \<open>"none"\<close> is assigned by the
  answer composer when retrieval is empty, not by the scoring function.)
\<close>

theorem calculate_confidence_empty_is_low: "calculate_confidence [] = ''low''"
  by (simp add: calculate_confidence_def)

text \<open>Claim C1 as stated fails: the result for the empty list is not \<open>"none"\<close>.\<close>

theorem calculate_confidence_empty_not_none: "calculate_confidence [] \<noteq> ''none''"
  by (simp add: calculate_confidence_def)

text \<open>
  Claim C5: for a non-empty list of retrieved chunks, with \<open>mx\<close> the maximum and \<open>mean\<close>
  the arithmetic mean of the scores, the tier is \<open>"high"\<close> exactly if \<open>mx > 0.85\<close> and
  \<open>mean > 0.75\<close>; otherwise it is \<open>"medium"\<close> exactly if \<open>mx > 0.70\<close> and \<open>mean > 0.65\<close>;
  otherwise it is \<open>"low"\<close>.
\<close>

theorem calculate_confidence_tiers:
  assumes "chunks \<noteq> []"
  defines "mx \<equiv> Max (set (map rc_relevance_score chunks))"
    and "mean \<equiv> sum_list (map rc_relevance_score chunks) / real (length chunks)"
  shows "(calculate_confidence chunks = ''high'' \<longleftrightarrow> mx > 0.85 \<and> mean > 0.75)
       \<and> (\<not> (mx > 0.85 \<and> mean > 0.75) \<longrightarrow>
            (calculate_confidence chunks = ''medium'' \<longleftrightarrow> mx > 0.70 \<and> mean > 0.65))
       \<and> (\<not> (mx > 0.85 \<and> mean > 0.75) \<and> \<not> (mx > 0.70 \<and> mean > 0.65) \<longrightarrow>
            calculate_confidence chunks = ''low'')"
proof -
  from assms(1) have "py_max (map rc_relevance_score chunks) = Inr mx"
    unfolding mx_def by (simp add: py_max_Max)
  with assms(1) have "calculate_confidence chunks =
    (if mx > 0.85 \<and> mean > 0.75 then ''high''
     else if mx > 0.70 \<and> mean > 0.65 then ''medium'' else ''low'')"
    unfolding mean_def calculate_confidence_def py_sum_sum_list by simp
  then show ?thesis using tier_split [of mx mean] by simp
qed


theorem calculate_confidence_tiers_witness:
  "[scored_chunk 0.9] \<noteq> [] \<and> calculate_confidence [scored_chunk 0.9] = ''high''
   \<and> [scored_chunk 0.72, scored_chunk 0.68] \<noteq> []
   \<and> calculate_confidence [scored_chunk 0.72, scored_chunk 0.68] = ''medium''
   \<and> [scored_chunk 0.5] \<noteq> [] \<and> calculate_confidence [scored_chunk 0.5] = ''low''"
proof -
  have s: "rc_relevance_score (scored_chunk x) = x" for x
    by (simp add: scored_chunk_def)
  have "calculate_confidence [scored_chunk 0.9] = ''high''"
    using calculate_confidence_tiers [of "[scored_chunk 0.9]"] by (simp add: s)
  moreover have "calculate_confidence [scored_chunk 0.72, scored_chunk 0.68] = ''medium''"
    using calculate_confidence_tiers [of "[scored_chunk 0.72, scored_chunk 0.68]"]
    by (simp add: s)
  moreover have "calculate_confidence [scored_chunk 0.5] = ''low''"
    using calculate_confidence_tiers [of "[scored_chunk 0.5]"] by (simp add: s)
  ultimately show ?thesis by simp
qed

section \<open>Properties of the effect combinators\<close>

lemma io_bind_Inl: "m = (Inl e, evs) \<Longrightarrow> io_bind m f = (Inl e, evs)"
  by (simp add: io_bind_def)

lemma io_bind_Inr: "m = (Inr x, evs) \<Longrightarrow> io_bind m f = (fst (f x), evs @ snd (f x))"
  by (simp add: io_bind_def split: prod.splits)

lemma io_bind_events:
  "snd (io_bind m f) = snd m @ (case fst m of Inl e \<Rightarrow> [] | Inr x \<Rightarrow> snd (f x))"
  by (cases m) (simp add: io_bind_def split: sum.splits prod.splits)

lemma io_try_events:
  "snd (io_try m h) = snd m @ (case fst m of Inl e \<Rightarrow> snd (h e) | Inr x \<Rightarrow> [])"
  by (cases m) (simp add: io_try_def split: sum.splits prod.splits)

lemma filter_io_bind:
  assumes "filter P (snd m) = []" and "\<And>x. filter P (snd (f x)) = []"
  shows "filter P (snd (io_bind m f)) = []"
  using assms by (simp add: io_bind_events split: sum.splits)

lemma filter_io_try:
  assumes "filter P (snd m) = []" and "\<And>e. filter P (snd (h e)) = []"
  shows "filter P (snd (io_try m h)) = []"
  using assms by (simp add: io_try_events split: sum.splits)

lemma snd_io_return [simp]: "snd (io_return x) = []"
  by (simp add: io_return_def)

lemma snd_io_raise [simp]: "snd (io_raise e) = []"
  by (simp add: io_raise_def)

lemma snd_io_raise_or [simp]: "snd (io_raise_or r) = []"
  by (simp add: io_raise_or_def)

lemma snd_io_call [simp]: "snd (io_call ev r) = [ev]"
  by (simp add: io_call_def)

lemma fst_io_return [simp]: "fst (io_return x) = Inr x"
  by (simp add: io_return_def)

lemma generate_embedding_no_generation:
  "filter is_generation_call (snd (generate_embedding svc t)) = []"
  unfolding generate_embedding_def
  by (cases "gm_client svc") (auto intro!: filter_io_bind split: list.splits)

lemma generate_embedding_no_search:
  "filter is_search_call (snd (generate_embedding svc t)) = []"
  unfolding generate_embedding_def
  by (cases "gm_client svc") (auto intro!: filter_io_bind split: list.splits)

lemma search_similar_no_generation:
  "filter is_generation_call (snd (search_similar svc q k t ids)) = []"
  unfolding search_similar_def
  by (cases "qd_client svc") (auto intro!: filter_io_bind)

lemma enrich_results_no_generation:
  "filter is_generation_call (snd (enrich_results db results acc)) = []"
proof (induction results arbitrary: acc)
  case Nil
  then show ?case by simp
next
  case (Cons r rs)
  show ?case
    unfolding enrich_results.simps
    by (rule filter_io_bind) (simp_all add: Cons.IH split: option.splits)
qed

lemma search_and_enrich_no_generation:
  "filter is_generation_call (snd (search_and_enrich svc q k t ids)) = []"
  unfolding search_and_enrich_def
  by (intro filter_io_bind search_similar_no_generation)
     (auto intro!: filter_io_bind enrich_results_no_generation)

lemma retrieve_no_generation:
  "filter is_generation_call (snd (retrieve_relevant_chunks svc q k t a)) = []"
  unfolding retrieve_relevant_chunks_def
  by (intro filter_io_bind generate_embedding_no_generation)
     (auto intro!: filter_io_bind search_and_enrich_no_generation)

lemma log_query_returns: "fst (log_query svc q a s c uid role sid) = Inr ()"
  unfolding log_query_def
  by (auto simp add: io_return_def io_try_def io_call_def
      split: option.splits sum.splits prod.splits)

lemma log_query_no_generation:
  "filter is_generation_call (snd (log_query svc q a s c uid role sid)) = []"
  unfolding log_query_def
  by (auto intro!: filter_io_try split: option.splits)

section \<open>Properties of the vector store service\<close>

lemma build_search_request_empty_ids:
  "build_search_request svc query_embedding top_k score_threshold (Some [])
     = build_search_request svc query_embedding top_k score_threshold None"
  by (simp add: build_search_request_def)

text \<open>
  Claim C10: an eligible-policy-id list that is provided but empty applies no id filter.
  For every service, query embedding, \<open>top_k\<close> and threshold, \<open>search_similar\<close> with
  \<open>policy_ids = []\<close> behaves exactly as with \<open>policy_ids = None\<close> (same result, same
  request), and with an initialised client the one request it issues carries
  \<open>query_filter = None\<close>: an unfiltered search over the whole collection, not a search
  restricted to zero documents.
\<close>

theorem search_similar_empty_ids_unfiltered:
  "search_similar svc query_embedding top_k score_threshold (Some [])
     = search_similar svc query_embedding top_k score_threshold None
   \<and> (\<forall>client. qd_client svc = Some client \<longrightarrow>
        snd (search_similar svc query_embedding top_k score_threshold (Some [])) =
          [QdrantSearch \<lparr> sr_collection_name = qd_collection_name svc,
                           sr_query_vector = query_embedding,
                           sr_limit = top_k,
                           sr_score_threshold = score_threshold,
                           sr_query_filter = None,
                           sr_with_payload = True \<rparr>])"
proof (intro conjI allI impI)
  show "search_similar svc query_embedding top_k score_threshold (Some [])
     = search_similar svc query_embedding top_k score_threshold None"
    by (simp only: search_similar_def build_search_request_empty_ids)
next
  fix client
  assume "qd_client svc = Some client"
  then show "snd (search_similar svc query_embedding top_k score_threshold (Some [])) =
          [QdrantSearch \<lparr> sr_collection_name = qd_collection_name svc,
                           sr_query_vector = query_embedding,
                           sr_limit = top_k,
                           sr_score_threshold = score_threshold,
                           sr_query_filter = None,
                           sr_with_payload = True \<rparr>]"
    by (cases "qc_search client
                 (build_search_request svc query_embedding top_k score_threshold (Some []))")
       (simp_all add: search_similar_def build_search_request_def io_bind_def io_call_def
          io_return_def)
qed

theorem search_similar_empty_ids_unfiltered_witness:
  "qd_client example_qdrant
     = Some \<lparr> qc_search = (\<lambda>r. Inr [fire_point]), qc_upsert_error = (\<lambda>batch. None) \<rparr>
   \<and> snd (search_similar example_qdrant [1, 0] 5 0.7 (Some [])) =
        [QdrantSearch \<lparr> sr_collection_name = ''voyage_policies'',
                         sr_query_vector = [1, 0],
                         sr_limit = 5,
                         sr_score_threshold = 0.7,
                         sr_query_filter = None,
                         sr_with_payload = True \<rparr>]
   \<and> search_similar example_qdrant [1, 0] 5 0.7 (Some [])
       = search_similar example_qdrant [1, 0] 5 0.7 None"
proof -
  have h: "qd_client example_qdrant
     = Some \<lparr> qc_search = (\<lambda>r. Inr [fire_point]), qc_upsert_error = (\<lambda>batch. None) \<rparr>"
    by (simp add: example_qdrant_def)
  have n: "qd_collection_name example_qdrant = ''voyage_policies''"
    by (simp add: example_qdrant_def)
  note t = search_similar_empty_ids_unfiltered [of example_qdrant "[1, 0]" 5 "0.7"]
  from t have e: "search_similar example_qdrant [1, 0] 5 0.7 (Some [])
       = search_similar example_qdrant [1, 0] 5 0.7 None"
    by (rule conjunct1)
  from t h have "snd (search_similar example_qdrant [1, 0] 5 0.7 (Some [])) =
        [QdrantSearch \<lparr> sr_collection_name = qd_collection_name example_qdrant,
                         sr_query_vector = [1, 0],
                         sr_limit = 5,
                         sr_score_threshold = 0.7,
                         sr_query_filter = None,
                         sr_with_payload = True \<rparr>]"
    by blast
  with e h n show ?thesis by (simp only: simp_thms)
qed

section \<open>Properties of the Gemini service\<close>

lemma embed_one_batch_raises:
  "\<exists>e. fst (embed_one_batch client texts batch_size i acc) = Inl e"
proof (cases "gc_embed_content client (take batch_size (drop i texts))")
  case (Inl e)
  then show ?thesis by (simp add: embed_one_batch_def io_bind_def io_call_def)
next
  case (Inr embeddings)
  then show ?thesis
    by (cases embeddings)
       (simp_all add: embed_one_batch_def io_bind_def io_call_def io_raise_def)
qed

lemma embed_batches_raises:
  "starts \<noteq> [] \<Longrightarrow> \<exists>e. fst (embed_batches client texts batch_size starts acc) = Inl e"
proof (cases starts)
  case Nil
  assume "starts \<noteq> []"
  with Nil show ?thesis by simp
next
  case (Cons i rest)
  obtain e evs where "embed_one_batch client texts batch_size i acc = (Inl e, evs)"
    using embed_one_batch_raises [of client texts batch_size i acc]
    by (cases "embed_one_batch client texts batch_size i acc") auto
  with Cons show ?thesis by (simp add: io_bind_def)
qed

lemma py_range_step_nonempty: "0 < n \<Longrightarrow> 0 < step \<Longrightarrow> py_range_step n step \<noteq> []"
proof -
  assume n: "0 < n" and s: "0 < step"
  then have "step \<le> n + step - 1" by simp
  then have "0 < (n + step - 1) div step" using s by (simp add: div_greater_zero_iff)
  then show ?thesis by (simp add: py_range_step_def)
qed

text \<open>
  Claim C4 (what the code does instead): for every non-empty list of texts and every
  positive batch size, \<open>generate_embeddings_batch\<close> raises; it never returns a list of
  vectors, whatever the provider answers. (The claim asks for one vector per input text,
  in input order.)
\<close>

theorem generate_embeddings_batch_never_returns:
  assumes "texts \<noteq> []" and "0 < batch_size"
  shows "\<exists>e. fst (generate_embeddings_batch svc texts batch_size) = Inl e"
proof (cases "gm_client svc")
  case None
  then show ?thesis by (simp add: generate_embeddings_batch_def io_raise_def)
next
  case (Some client)
  from assms have "py_range_step (length texts) (nat batch_size) \<noteq> []"
    by (intro py_range_step_nonempty) simp_all
  from embed_batches_raises [OF this] Some assms show ?thesis
    by (simp add: generate_embeddings_batch_def)
qed

theorem generate_embeddings_batch_never_returns_witness:
  "[''fire exits'', ''assembly point''] \<noteq> [] \<and> (0::int) < 100
   \<and> (\<exists>e. fst (generate_embeddings_batch \<lparr> gm_client = Some working_client \<rparr>
                  [''fire exits'', ''assembly point''] 100) = Inl e)"
  using generate_embeddings_batch_never_returns
    [of "[''fire exits'', ''assembly point'']" 100 "\<lparr> gm_client = Some working_client \<rparr>"]
  by simp

text \<open>
  The run at that input: the provider returns one vector per text, and the comprehension
  raises NameError after the first (and only) provider call.
\<close>

lemma generate_embeddings_batch_example:
  "generate_embeddings_batch \<lparr> gm_client = Some working_client \<rparr>
      [''fire exits'', ''assembly point''] 100
   = (Inl NameError, [EmbedContent [''fire exits'', ''assembly point'']])"
  by (simp add: generate_embeddings_batch_def py_range_step_def working_client_def
      embed_one_batch_def io_bind_def io_call_def io_raise_def io_return_def)

section \<open>Properties of retrieval\<close>

lemma ex_retrieve_fire:
  "retrieve_relevant_chunks (example_retrieval failing_generation_client store_with_fire_policy)
      ''What do I do in a fire?'' 5 0.7 True
   = (Inr [fire_chunk],
      [EmbedContent [''What do I do in a fire?''], DbSelectActivePolicyIds,
       QdrantSearch \<lparr> sr_collection_name = ''voyage_policies'', sr_query_vector = [1, 0],
         sr_limit = 5, sr_score_threshold = 0.7,
         sr_query_filter = Some \<lparr> flt_must = [\<lparr> fc_key = ''policy_id'', fc_match = MatchAny [1] \<rparr>] \<rparr>,
         sr_with_payload = True \<rparr>,
       DbGetPolicy 1])"
  by (simp add: retrieve_relevant_chunks_def example_retrieval_def failing_generation_client_def
      store_with_fire_policy_def generate_embedding_def io_bind_def io_call_def io_return_def
      search_and_enrich_def search_similar_def example_qdrant_def build_search_request_def
      format_result_def fire_point_def fire_policy_def fire_chunk_def io_raise_def)

lemma ex_conf: "calculate_confidence [fire_chunk] = ''high''"
  by (simp add: calculate_confidence_def fire_chunk_def py_sum_def)

lemma ex_round: "py_round3 0.9 = 0.9"
  by (simp add: py_round3_def)


text \<open>
  Claim C6 (as amended): if \<open>active_only\<close> is true and the query for the active policy
  ids answers with the empty list, \<open>retrieve_relevant_chunks\<close> issues no similarity
  search; it returns the empty list provided the embedding of the question (step 1, which
  runs first) succeeded, and otherwise raises the embedding's exception.
\<close>

theorem retrieve_no_active_policies:
  assumes "ms_active_policy_ids (rs_db svc) = Inr []"
  shows "filter is_search_call
           (snd (retrieve_relevant_chunks svc question top_k score_threshold True)) = []
       \<and> (\<forall>embedding. fst (generate_embedding (rs_gemini svc) question) = Inr embedding \<longrightarrow>
            fst (retrieve_relevant_chunks svc question top_k score_threshold True) = Inr [])
       \<and> (\<forall>e. fst (generate_embedding (rs_gemini svc) question) = Inl e \<longrightarrow>
            fst (retrieve_relevant_chunks svc question top_k score_threshold True) = Inl e)"
proof -
  obtain r evs where g: "generate_embedding (rs_gemini svc) question = (r, evs)"
    by (cases "generate_embedding (rs_gemini svc) question")
  have ns: "filter is_search_call evs = []"
    using generate_embedding_no_search [of "rs_gemini svc" question] g by simp
  show ?thesis
  proof (cases r)
    case (Inl e)
    with g ns show ?thesis
      by (simp add: retrieve_relevant_chunks_def io_bind_def)
  next
    case (Inr embedding)
    with g ns assms show ?thesis
      by (simp add: retrieve_relevant_chunks_def io_bind_def io_call_def io_return_def)
  qed
qed

theorem retrieve_no_active_policies_witness:
  "ms_active_policy_ids (rs_db (example_retrieval working_client store_without_active)) = Inr []
   \<and> retrieve_relevant_chunks (example_retrieval working_client store_without_active)
        ''What do I do in a fire?'' 5 0.7 True
      = (Inr [], [EmbedContent [''What do I do in a fire?''], DbSelectActivePolicyIds])"
proof -
  have h: "ms_active_policy_ids (rs_db (example_retrieval working_client store_without_active))
             = Inr []"
    by (simp add: example_retrieval_def store_without_active_def)
  have e: "generate_embedding (rs_gemini (example_retrieval working_client store_without_active))
             ''What do I do in a fire?''
           = (Inr [1, 0], [EmbedContent [''What do I do in a fire?'']])"
    by (simp add: example_retrieval_def working_client_def generate_embedding_def io_bind_def
        io_call_def io_return_def)
  have s: "snd (retrieve_relevant_chunks (example_retrieval working_client store_without_active)
        ''What do I do in a fire?'' 5 0.7 True)
      = [EmbedContent [''What do I do in a fire?''], DbSelectActivePolicyIds]"
    by (simp add: retrieve_relevant_chunks_def h e io_bind_def io_call_def io_return_def)
  from retrieve_no_active_policies [OF h, of "''What do I do in a fire?''" 5 "0.7"] e
  have "fst (retrieve_relevant_chunks (example_retrieval working_client store_without_active)
        ''What do I do in a fire?'' 5 0.7 True) = Inr []"
    by simp
  with s h show ?thesis by (simp add: prod_eq_iff)
qed

text \<open>
  Claim C6 as stated fails when the embedding of the question fails: there are no active
  policies, and the call raises instead of returning the empty list.
\<close>

theorem retrieve_no_active_policies_counterexample:
  "ms_active_policy_ids (rs_db (example_retrieval embedding_down_client store_without_active))
     = Inr []
   \<and> fst (retrieve_relevant_chunks (example_retrieval embedding_down_client store_without_active)
        ''What do I do in a fire?'' 5 0.7 True)
      = Inl (ExternalError ''503 unavailable'')
   \<and> fst (retrieve_relevant_chunks (example_retrieval embedding_down_client store_without_active)
        ''What do I do in a fire?'' 5 0.7 True)
      \<noteq> Inr []"
  by (simp add: example_retrieval_def store_without_active_def embedding_down_client_def
      retrieve_relevant_chunks_def generate_embedding_def io_bind_def io_call_def)

section \<open>Properties of the answer composer\<close>


lemma generate_chat_response_provider_failure:
  assumes "gm_client svc = Some client"
    and "gc_generate_content client (build_gen_request sp up temp mt) = Inl e"
  shows "generate_chat_response svc sp up temp mt
           = (Inr error_fallback_message, [GenerateContent (build_gen_request sp up temp mt)])"
  using assms
  by (simp add: generate_chat_response_def io_try_def io_bind_def io_call_def io_return_def)

lemma calculate_confidence_range:
  "calculate_confidence chunks \<in> {''high'', ''medium'', ''low''}"
  by (simp add: calculate_confidence_def split: sum.splits)

lemma answer_question_returns:
  "\<exists>r. fst (answer_question svc q uid role sid k t temp) = Inr r"
proof -
  obtain b evs where b: "answer_question_try svc q uid role sid k t temp = (b, evs)"
    by (cases "answer_question_try svc q uid role sid k t temp")
  obtain evs' where l: "log_query svc q (ar_answer error_result) (ar_sources error_result)
      (ar_confidence error_result) uid role sid = (Inr (), evs')"
    using log_query_returns [of svc q "ar_answer error_result" "ar_sources error_result"
        "ar_confidence error_result" uid role sid]
    by (cases "log_query svc q (ar_answer error_result) (ar_sources error_result)
          (ar_confidence error_result) uid role sid") simp
  show ?thesis
    by (cases b) (simp_all add: answer_question_def b l io_try_def io_bind_def io_return_def)
qed

lemma answer_question_provider_failure:
  assumes "fst (retrieve_relevant_chunks (cs_retrieval svc) question top_k score_threshold True)
             = Inr chunks"
    and "chunks \<noteq> []"
    and "cs_format_system_prompt svc (format_context chunks) = Inr system_prompt"
    and "cs_format_user_prompt svc question = Inr user_prompt"
    and "gm_client (cs_gemini svc) = Some client"
    and "gc_generate_content client
           (build_gen_request system_prompt user_prompt temperature 2048) = Inl e"
  shows "fst (answer_question svc question user_id user_role service_id top_k score_threshold
                temperature)
           = Inr \<lparr> ar_answer = error_fallback_message,
                   ar_sources = format_sources chunks,
                   ar_confidence = calculate_confidence chunks,
                   ar_chunks_retrieved = int (length chunks) \<rparr>
       \<and> calculate_confidence chunks \<in> {''high'', ''medium'', ''low''}"
proof -
  obtain evs where r: "retrieve_relevant_chunks (cs_retrieval svc) question top_k
      score_threshold True = (Inr chunks, evs)"
    using assms(1)
    by (cases "retrieve_relevant_chunks (cs_retrieval svc) question top_k score_threshold True")
       simp
  note g = generate_chat_response_provider_failure [OF assms(5) assms(6)]
  obtain evs' where l: "log_query svc question error_fallback_message (format_sources chunks)
      (calculate_confidence chunks) user_id user_role service_id = (Inr (), evs')"
    using log_query_returns [of svc question error_fallback_message "format_sources chunks"
        "calculate_confidence chunks" user_id user_role service_id]
    by (cases "log_query svc question error_fallback_message (format_sources chunks)
          (calculate_confidence chunks) user_id user_role service_id") simp
  have "fst (answer_question_try svc question user_id user_role service_id top_k
               score_threshold temperature)
        = Inr \<lparr> ar_answer = error_fallback_message,
                ar_sources = format_sources chunks,
                ar_confidence = calculate_confidence chunks,
                ar_chunks_retrieved = int (length chunks) \<rparr>"
    using assms(2)
    by (simp add: answer_question_try_def r assms(3) assms(4) g l io_bind_def io_raise_or_def
        io_return_def)
  then have "fst (answer_question svc question user_id user_role service_id top_k
               score_threshold temperature)
        = Inr \<lparr> ar_answer = error_fallback_message,
                ar_sources = format_sources chunks,
                ar_confidence = calculate_confidence chunks,
                ar_chunks_retrieved = int (length chunks) \<rparr>"
    by (cases "answer_question_try svc question user_id user_role service_id top_k
               score_threshold temperature")
       (simp add: answer_question_def io_try_def)
  with calculate_confidence_range show ?thesis by simp
qed

lemma answer_question_client_missing:
  assumes "fst (retrieve_relevant_chunks (cs_retrieval svc) question top_k score_threshold True)
             = Inr chunks"
    and "chunks \<noteq> []"
    and "cs_format_system_prompt svc (format_context chunks) = Inr system_prompt"
    and "cs_format_user_prompt svc question = Inr user_prompt"
    and "gm_client (cs_gemini svc) = None"
  shows "fst (answer_question svc question user_id user_role service_id top_k score_threshold
                temperature) = Inr error_result"
proof -
  obtain evs where r: "retrieve_relevant_chunks (cs_retrieval svc) question top_k
      score_threshold True = (Inr chunks, evs)"
    using assms(1)
    by (cases "retrieve_relevant_chunks (cs_retrieval svc) question top_k score_threshold True")
       simp
  have g: "generate_chat_response (cs_gemini svc) system_prompt user_prompt temperature 2048
             = (Inl RuntimeError, [])"
    using assms(5) by (simp add: generate_chat_response_def io_raise_def)
  obtain evs' where l: "log_query svc question (ar_answer error_result)
      (ar_sources error_result) (ar_confidence error_result) user_id user_role service_id
        = (Inr (), evs')"
    using log_query_returns [of svc question "ar_answer error_result" "ar_sources error_result"
        "ar_confidence error_result" user_id user_role service_id]
    by (cases "log_query svc question (ar_answer error_result) (ar_sources error_result)
          (ar_confidence error_result) user_id user_role service_id") simp
  have "fst (answer_question_try svc question user_id user_role service_id top_k
               score_threshold temperature) = Inl RuntimeError"
    using assms(2)
    by (simp add: answer_question_try_def r assms(3) assms(4) g io_bind_def io_raise_or_def)
  then show ?thesis
    by (cases "answer_question_try svc question user_id user_role service_id top_k
               score_threshold temperature")
       (simp add: answer_question_def io_try_def l io_bind_def io_return_def)
qed

text \<open>
  Claim C2 (as amended): \<open>answer_question\<close> never raises. If retrieval returned a
  non-empty list of chunks, the prompts were built, and the provider's generation call
  raises, it returns the fixed error-fallback text as the answer; the confidence it
  reports is then the tier computed from the retrieved chunks (high, medium or low) and
  the sources are those of the chunks, because \<open>generate_chat_response\<close> has already
  turned the failure into the fallback text.
\<close>

theorem answer_question_generation_failure:
  "(\<exists>r. fst (answer_question svc question user_id user_role service_id top_k score_threshold
               temperature) = Inr r)
   \<and> (\<forall>chunks system_prompt user_prompt client e.
        fst (retrieve_relevant_chunks (cs_retrieval svc) question top_k score_threshold True)
          = Inr chunks
        \<and> chunks \<noteq> []
        \<and> cs_format_system_prompt svc (format_context chunks) = Inr system_prompt
        \<and> cs_format_user_prompt svc question = Inr user_prompt
        \<and> gm_client (cs_gemini svc) = Some client
        \<and> gc_generate_content client
             (build_gen_request system_prompt user_prompt temperature 2048) = Inl e
        \<longrightarrow>
        fst (answer_question svc question user_id user_role service_id top_k
               score_threshold temperature)
          = Inr \<lparr> ar_answer = error_fallback_message,
                  ar_sources = format_sources chunks,
                  ar_confidence = calculate_confidence chunks,
                  ar_chunks_retrieved = int (length chunks) \<rparr>
        \<and> calculate_confidence chunks \<in> {''high'', ''medium'', ''low''})"
proof (intro conjI allI impI)
  show "\<exists>r. fst (answer_question svc question user_id user_role service_id top_k
               score_threshold temperature) = Inr r"
    by (rule answer_question_returns)
next
  fix chunks system_prompt user_prompt client e
  assume a: "fst (retrieve_relevant_chunks (cs_retrieval svc) question top_k score_threshold True)
          = Inr chunks
        \<and> chunks \<noteq> []
        \<and> cs_format_system_prompt svc (format_context chunks) = Inr system_prompt
        \<and> cs_format_user_prompt svc question = Inr user_prompt
        \<and> gm_client (cs_gemini svc) = Some client
        \<and> gc_generate_content client
             (build_gen_request system_prompt user_prompt temperature 2048) = Inl e"
  then show "fst (answer_question svc question user_id user_role service_id top_k
                  score_threshold temperature)
             = Inr \<lparr> ar_answer = error_fallback_message,
                     ar_sources = format_sources chunks,
                     ar_confidence = calculate_confidence chunks,
                     ar_chunks_retrieved = int (length chunks) \<rparr>"
    using answer_question_provider_failure [of svc question top_k score_threshold chunks
        system_prompt user_prompt client temperature e user_id user_role service_id]
    by blast
  show "calculate_confidence chunks \<in> {''high'', ''medium'', ''low''}"
    by (rule calculate_confidence_range)
qed

lemma ex_chat_retrieve:
  "retrieve_relevant_chunks
      (cs_retrieval (example_chat failing_generation_client store_with_fire_policy))
      ''What do I do in a fire?'' 5 0.7 True
   = (Inr [fire_chunk],
      [EmbedContent [''What do I do in a fire?''], DbSelectActivePolicyIds,
       QdrantSearch \<lparr> sr_collection_name = ''voyage_policies'', sr_query_vector = [1, 0],
         sr_limit = 5, sr_score_threshold = 0.7,
         sr_query_filter = Some \<lparr> flt_must = [\<lparr> fc_key = ''policy_id'', fc_match = MatchAny [1] \<rparr>] \<rparr>,
         sr_with_payload = True \<rparr>,
       DbGetPolicy 1])"
  by (simp add: example_chat_def ex_retrieve_fire)

text \<open>
  Claim C2 as stated fails: the generation call raises, the answer is the error-fallback
  text, and the confidence reported is \<open>"high"\<close>, not \<open>"error"\<close>.
\<close>

theorem answer_question_generation_failure_counterexample:
  "gc_generate_content failing_generation_client
      (build_gen_request (''Context: '' @ format_context [fire_chunk])
         (''Question: '' @ ''What do I do in a fire?'') 0.1 2048)
     = Inl (ExternalError ''503 unavailable'')
   \<and> fst (answer_question (example_chat failing_generation_client store_with_fire_policy)
          ''What do I do in a fire?'' (Some ''u17'') (Some ''support_worker'') None 5 0.7 0.1)
     = Inr \<lparr> ar_answer = error_fallback_message,
             ar_sources = [\<lparr> src_policy = ''Fire Safety'', src_version = ''1'',
                              src_section = ''Evacuation'', src_relevance_score = 0.9 \<rparr>],
             ar_confidence = ''high'',
             ar_chunks_retrieved = 1 \<rparr>
   \<and> ''high'' \<noteq> ''error''"
proof -
  have c: "calculate_confidence [fire_chunk] = ''high''" by (rule ex_conf)
  have s: "format_sources [fire_chunk] = [\<lparr> src_policy = ''Fire Safety'', src_version = ''1'',
                              src_section = ''Evacuation'', src_relevance_score = 0.9 \<rparr>]"
    by (simp add: format_sources_def fire_chunk_def py_round3_def)
  have g: "generate_chat_response
             (cs_gemini (example_chat failing_generation_client store_with_fire_policy))
             (''Context: '' @ format_context [fire_chunk])
             (''Question: '' @ ''What do I do in a fire?'') 0.1 2048
           = (Inr error_fallback_message,
              [GenerateContent (build_gen_request (''Context: '' @ format_context [fire_chunk])
                 (''Question: '' @ ''What do I do in a fire?'') 0.1 2048)])"
    by (rule generate_chat_response_provider_failure
          [where client = failing_generation_client and e = "ExternalError ''503 unavailable''"])
       (simp_all add: example_chat_def failing_generation_client_def)
  have l: "log_query (example_chat failing_generation_client store_with_fire_policy)
             q a srcs conf (Some ''u17'') (Some ''support_worker'') None
           = (Inr (), [AuditLogQuery \<lparr> ae_user_id = ''u17'', ae_user_role = ''support_worker'',
                 ae_question = q, ae_answer = a, ae_retrieved_chunks = srcs,
                 ae_service_id = None, ae_confidence = conf \<rparr>])" for q a srcs conf
    by (simp add: log_query_def example_chat_def io_try_def io_call_def)
  have f1: "cs_format_system_prompt (example_chat failing_generation_client store_with_fire_policy)
              = (\<lambda>context. Inr (''Context: '' @ context))"
    and f2: "cs_format_user_prompt (example_chat failing_generation_client store_with_fire_policy)
              = (\<lambda>question. Inr (''Question: '' @ question))"
    by (simp_all add: example_chat_def)
  have "fst (answer_question_try (example_chat failing_generation_client store_with_fire_policy)
          ''What do I do in a fire?'' (Some ''u17'') (Some ''support_worker'') None 5 0.7 0.1)
     = Inr \<lparr> ar_answer = error_fallback_message,
             ar_sources = [\<lparr> src_policy = ''Fire Safety'', src_version = ''1'',
                              src_section = ''Evacuation'', src_relevance_score = 0.9 \<rparr>],
             ar_confidence = ''high'',
             ar_chunks_retrieved = 1 \<rparr>"
    unfolding answer_question_try_def ex_chat_retrieve
    by (simp add: io_bind_def io_raise_or_def io_return_def f1 f2 g [simplified] l c s)
  then have "fst (answer_question (example_chat failing_generation_client store_with_fire_policy)
          ''What do I do in a fire?'' (Some ''u17'') (Some ''support_worker'') None 5 0.7 0.1)
     = Inr \<lparr> ar_answer = error_fallback_message,
             ar_sources = [\<lparr> src_policy = ''Fire Safety'', src_version = ''1'',
                              src_section = ''Evacuation'', src_relevance_score = 0.9 \<rparr>],
             ar_confidence = ''high'',
             ar_chunks_retrieved = 1 \<rparr>"
    by (cases "answer_question_try (example_chat failing_generation_client store_with_fire_policy)
          ''What do I do in a fire?'' (Some ''u17'') (Some ''support_worker'') None 5 0.7 0.1")
       (simp add: answer_question_def io_try_def)
  then show ?thesis by (simp add: failing_generation_client_def)
qed


theorem answer_question_generation_failure_witness:
  "fst (retrieve_relevant_chunks
          (cs_retrieval (example_chat failing_generation_client store_with_fire_policy))
          ''What do I do in a fire?'' 5 0.7 True) = Inr [fire_chunk]
   \<and> [fire_chunk] \<noteq> []
   \<and> cs_format_system_prompt (example_chat failing_generation_client store_with_fire_policy)
        (format_context [fire_chunk]) = Inr (''Context: '' @ format_context [fire_chunk])
   \<and> cs_format_user_prompt (example_chat failing_generation_client store_with_fire_policy)
        ''What do I do in a fire?'' = Inr ''Question: What do I do in a fire?''
   \<and> gm_client (cs_gemini (example_chat failing_generation_client store_with_fire_policy))
        = Some failing_generation_client
   \<and> gc_generate_content failing_generation_client
        (build_gen_request (''Context: '' @ format_context [fire_chunk])
           ''Question: What do I do in a fire?'' 0.1 2048)
        = Inl (ExternalError ''503 unavailable'')
   \<and> fst (answer_question (example_chat failing_generation_client store_with_fire_policy)
          ''What do I do in a fire?'' (Some ''u17'') (Some ''support_worker'') None 5 0.7 0.1)
        = Inr \<lparr> ar_answer = error_fallback_message,
                ar_sources = format_sources [fire_chunk],
                ar_confidence = calculate_confidence [fire_chunk],
                ar_chunks_retrieved = 1 \<rparr>"
proof -
  have h: "fst (retrieve_relevant_chunks
          (cs_retrieval (example_chat failing_generation_client store_with_fire_policy))
          ''What do I do in a fire?'' 5 0.7 True) = Inr [fire_chunk]
   \<and> [fire_chunk] \<noteq> []
   \<and> cs_format_system_prompt (example_chat failing_generation_client store_with_fire_policy)
        (format_context [fire_chunk]) = Inr (''Context: '' @ format_context [fire_chunk])
   \<and> cs_format_user_prompt (example_chat failing_generation_client store_with_fire_policy)
        ''What do I do in a fire?'' = Inr ''Question: What do I do in a fire?''
   \<and> gm_client (cs_gemini (example_chat failing_generation_client store_with_fire_policy))
        = Some failing_generation_client
   \<and> gc_generate_content failing_generation_client
        (build_gen_request (''Context: '' @ format_context [fire_chunk])
           ''Question: What do I do in a fire?'' 0.1 2048)
        = Inl (ExternalError ''503 unavailable'')"
    by (simp add: ex_chat_retrieve) (simp add: example_chat_def failing_generation_client_def)
  have "fst (answer_question (example_chat failing_generation_client store_with_fire_policy)
          ''What do I do in a fire?'' (Some ''u17'') (Some ''support_worker'') None 5 0.7 0.1)
        = Inr \<lparr> ar_answer = error_fallback_message,
                ar_sources = format_sources [fire_chunk],
                ar_confidence = calculate_confidence [fire_chunk],
                ar_chunks_retrieved = int (length [fire_chunk]) \<rparr>"
    using h answer_question_generation_failure
      [of "example_chat failing_generation_client store_with_fire_policy"
          "''What do I do in a fire?''" "Some ''u17''" "Some ''support_worker''" None 5 "0.7" "0.1"]
    by blast
  with h show ?thesis by simp
qed

text \<open>
  Claim C3 (as amended): if retrieval returns zero chunks, neither path calls the
  generation capability. The non-streaming path returns exactly the fixed escalation
  message with confidence \<open>"none"\<close>, no sources and a chunk count of 0. The streaming path
  yields exactly one fragment, the fixed escalation message, and no sidecar: it reports no
  confidence at all.
\<close>

theorem empty_retrieval_escalates:
  assumes "fst (retrieve_relevant_chunks (cs_retrieval svc) question top_k score_threshold True)
             = Inr []"
  shows "fst (answer_question svc question user_id user_role service_id top_k score_threshold
                temperature)
           = Inr \<lparr> ar_answer = escalation_message, ar_sources = [], ar_confidence = ''none'',
                   ar_chunks_retrieved = 0 \<rparr>
       \<and> filter is_generation_call
           (snd (answer_question svc question user_id user_role service_id top_k
                   score_threshold temperature)) = []
       \<and> fst (answer_question_stream svc question top_k score_threshold temperature)
           = [Text escalation_message]
       \<and> filter is_generation_call
           (snd (answer_question_stream svc question top_k score_threshold temperature)) = []
       \<and> stream_confidence
           (fst (answer_question_stream svc question top_k score_threshold temperature)) = None"
proof -
  obtain evs where r: "retrieve_relevant_chunks (cs_retrieval svc) question top_k
      score_threshold True = (Inr [], evs)"
    using assms
    by (cases "retrieve_relevant_chunks (cs_retrieval svc) question top_k score_threshold True")
       simp
  have ng: "filter is_generation_call evs = []"
    using retrieve_no_generation [of "cs_retrieval svc" question top_k score_threshold True] r
    by simp
  obtain evs' where l: "log_query svc question (ar_answer no_chunks_result)
      (ar_sources no_chunks_result) (ar_confidence no_chunks_result) user_id user_role service_id
        = (Inr (), evs')"
    using log_query_returns [of svc question "ar_answer no_chunks_result"
        "ar_sources no_chunks_result" "ar_confidence no_chunks_result" user_id user_role
        service_id]
    by (cases "log_query svc question (ar_answer no_chunks_result)
          (ar_sources no_chunks_result) (ar_confidence no_chunks_result) user_id user_role
          service_id") simp
  have ng': "filter is_generation_call evs' = []"
    using log_query_no_generation [of svc question "ar_answer no_chunks_result"
        "ar_sources no_chunks_result" "ar_confidence no_chunks_result" user_id user_role
        service_id] l
    by simp
  have t: "answer_question_try svc question user_id user_role service_id top_k
             score_threshold temperature = (Inr no_chunks_result, evs @ evs')"
    by (simp add: answer_question_try_def r l io_bind_def io_return_def)
  have a: "answer_question svc question user_id user_role service_id top_k
             score_threshold temperature = (Inr no_chunks_result, evs @ evs')"
    by (simp add: answer_question_def t io_try_def)
  have s: "answer_question_stream svc question top_k score_threshold temperature
             = ([Text escalation_message], evs)"
    by (simp add: answer_question_stream_def r)
  show ?thesis
    by (simp add: a s ng ng' no_chunks_result_def)
qed

theorem empty_retrieval_escalates_witness:
  "fst (retrieve_relevant_chunks
          (cs_retrieval (example_chat working_client store_without_active))
          ''What do I do in a fire?'' 5 0.7 True) = Inr []
   \<and> fst (answer_question (example_chat working_client store_without_active)
          ''What do I do in a fire?'' (Some ''u17'') (Some ''support_worker'') None 5 0.7 0.1)
        = Inr \<lparr> ar_answer = escalation_message, ar_sources = [], ar_confidence = ''none'',
                ar_chunks_retrieved = 0 \<rparr>
   \<and> fst (answer_question_stream (example_chat working_client store_without_active)
          ''What do I do in a fire?'' 5 0.7 0.1) = [Text escalation_message]"
proof -
  have h: "fst (retrieve_relevant_chunks
          (cs_retrieval (example_chat working_client store_without_active))
          ''What do I do in a fire?'' 5 0.7 True) = Inr []"
    by (simp add: example_chat_def example_retrieval_def store_without_active_def
        working_client_def retrieve_relevant_chunks_def generate_embedding_def io_bind_def
        io_call_def io_return_def)
  from empty_retrieval_escalates [OF h, of "Some ''u17''" "Some ''support_worker''" None "0.1"]
    h
  show ?thesis by simp
qed

text \<open>
  Claim C3 as stated fails for the streaming path: retrieval returns zero chunks and the
  stream does not report the confidence \<open>"none"\<close>.
\<close>

theorem empty_retrieval_stream_confidence_counterexample:
  "fst (retrieve_relevant_chunks
          (cs_retrieval (example_chat working_client store_without_active))
          ''What do I do in a fire?'' 5 0.7 True) = Inr []
   \<and> stream_confidence
        (fst (answer_question_stream (example_chat working_client store_without_active)
                ''What do I do in a fire?'' 5 0.7 0.1)) \<noteq> Some ''none''"
  by (simp add: example_chat_def example_retrieval_def store_without_active_def
      working_client_def retrieve_relevant_chunks_def generate_embedding_def io_bind_def
      io_call_def io_return_def answer_question_stream_def)

section \<open>Properties of the chunker\<close>

lemma indexed_Nil: "indexed [] 0"
  by (simp add: indexed_def)

lemma indexed_snoc:
  "indexed chunks i \<Longrightarrow> indexed (chunks @ [(c, chunk_metadata name i c)]) (i + 1)"
  by (simp add: indexed_def chunk_metadata_def)

lemma chunk_section_indexed:
  assumes "chunk_section st name cs ov pos i chunks = Some (chunks', i')"
    and "indexed chunks i"
  shows "indexed chunks' i'"
proof -
  have "indexed chunks i \<longrightarrow> indexed (fst r) (snd r)"
    if "chunk_section st name cs ov pos i chunks = Some r" for r
    using that
  proof (induction arbitrary: rule: chunk_section.raw_induct [where P =
      "\<lambda>st name cs ov pos i chunks r. indexed chunks i \<longrightarrow> indexed (fst r) (snd r)",
      rotated, consumes 1])
    case (1 f st name cs ov pos i chunks r)
    show ?case
    proof
      assume ix: "indexed chunks i"
      from 1(2) ix indexed_snoc [OF ix] 1(1) show "indexed (fst r) (snd r)"
        by (auto split: if_splits)
    qed
  qed
  with assms show ?thesis by force
qed

lemma chunk_sections_indexed:
  "chunk_sections doc sections cs ov i chunks = Some chunks' \<Longrightarrow> indexed chunks i
     \<Longrightarrow> indexed chunks' (int (length chunks'))"
proof (induction sections arbitrary: i chunks)
  case Nil
  then show ?case by (simp add: indexed_def)
next
  case (Cons sec sections)
  show ?case
  proof (cases "section_text_of doc sec = []")
    case True
    with Cons show ?thesis by simp
  next
    case False
    with Cons.prems(1) obtain c1 i1 where
      l: "chunk_section (section_text_of doc sec) (fst sec) cs ov 0 i chunks = Some (c1, i1)"
      and r: "chunk_sections doc sections cs ov i1 c1 = Some chunks'"
      by (auto split: option.splits)
    from chunk_section_indexed [OF l Cons.prems(2)] have ix: "indexed c1 i1" .
    from Cons.IH [OF r ix] show ?thesis .
  qed
qed

lemma chunk_section_terminates:
  assumes "ov < cs"
  shows "\<exists>r. chunk_section st name cs ov pos i chunks = Some r"
proof (induction "nat (int (length st) - pos)" arbitrary: pos i chunks rule: less_induct)
  case less
  show ?case
  proof (cases "\<not> pos < int (length st)
      \<or> length (window_chunk st cs pos) < 100
      \<or> pos + (cs - ov) \<ge> int (length st)")
    case True
    then show ?thesis by (subst chunk_section.simps) auto
  next
    case False
    then have "nat (int (length st) - (pos + (cs - ov))) < nat (int (length st) - pos)"
      using assms by linarith
    from less [OF this] obtain r where
      "chunk_section st name cs ov (pos + (cs - ov)) (i + 1)
         (chunks @ [(window_chunk st cs pos, chunk_metadata name i (window_chunk st cs pos))])
       = Some r"
      by blast
    with False show ?thesis by (subst chunk_section.simps) auto
  qed
qed

lemma chunk_sections_terminates:
  assumes "ov < cs"
  shows "\<exists>r. chunk_sections doc sections cs ov i chunks = Some r"
proof (induction sections arbitrary: i chunks)
  case Nil
  then show ?case by simp
next
  case (Cons sec sections)
  show ?case
  proof (cases "section_text_of doc sec = []")
    case True
    with Cons show ?thesis by simp
  next
    case False
    from chunk_section_terminates [OF assms] obtain c1 i1 where
      "chunk_section (section_text_of doc sec) (fst sec) cs ov 0 i chunks = Some (c1, i1)"
      by fastforce
    with Cons [of i1 c1] False show ?thesis by simp
  qed
qed

text \<open>
  Claim C7: for every text and section list, the chunk indices of the chunks that
  \<open>chunk_text\<close> emits are \<open>0, 1, 2, \<dots>\<close> in emission order: contiguous from 0 over the whole
  document, increasing across section boundaries, never reset per section. The call
  returns whenever the overlap is smaller than the chunk size.
\<close>

theorem chunk_text_indices_contiguous:
  "(overlap < chunk_size \<longrightarrow>
      (\<exists>chunks. chunk_text text sections chunk_size overlap = Some chunks))
   \<and> (\<forall>chunks. chunk_text text sections chunk_size overlap = Some chunks \<longrightarrow>
        map (\<lambda>c. cm_chunk_index (snd c)) chunks = map int [0 ..< length chunks])"
proof (intro conjI allI impI)
  assume "overlap < chunk_size"
  then show "\<exists>chunks. chunk_text text sections chunk_size overlap = Some chunks"
    unfolding chunk_text_def by (rule chunk_sections_terminates)
next
  fix chunks
  assume "chunk_text text sections chunk_size overlap = Some chunks"
  then have "indexed chunks (int (length chunks))"
    unfolding chunk_text_def by (rule chunk_sections_indexed) (rule indexed_Nil)
  then show "map (\<lambda>c. cm_chunk_index (snd c)) chunks = map int [0 ..< length chunks]"
    by (simp add: indexed_def)
qed

lemma emitted_from_Suc:
  "emitted_from st cs step pos (Suc k)
     = window_chunk st cs pos # emitted_from st cs step (pos + step) k"
proof -
  have "[0 ..< Suc k] = 0 # map Suc [0 ..< k]"
    by (simp add: upt_conv_Cons map_Suc_upt del: upt_Suc)
  then show ?thesis
    by (simp add: emitted_from_def o_def algebra_simps del: upt_Suc)
qed

lemma chunk_section_windows:
  assumes "chunk_section st name cs ov pos i chunks = Some r"
  shows "\<exists>k. map fst (fst r) = map fst chunks @ emitted_from st cs (cs - ov) pos k
           \<and> (\<forall>j<k. \<not> stops_at st cs (pos + int j * (cs - ov)))
           \<and> stops_at st cs (pos + int k * (cs - ov))"
  using assms
proof (induction rule: chunk_section.raw_induct [where P =
      "\<lambda>st name cs ov pos i chunks r.
         \<exists>k. map fst (fst r) = map fst chunks @ emitted_from st cs (cs - ov) pos k
           \<and> (\<forall>j<k. \<not> stops_at st cs (pos + int j * (cs - ov)))
           \<and> stops_at st cs (pos + int k * (cs - ov))",
      rotated, consumes 1])
  case (1 f st name cs ov pos i chunks r)
  let ?w = "window_chunk st cs pos"
  let ?step = "cs - ov"
  show ?case
  proof (cases "stops_at st cs pos")
    case True
    with 1(2) have "r = (chunks, i)"
      by (auto simp: stops_at_def split: if_splits)
    with True show ?thesis
      by (intro exI [of _ 0]) (simp add: emitted_from_def)
  next
    case False
    note emit = this
    show ?thesis
    proof (cases "pos + ?step \<ge> int (length st)")
      case True
      with emit 1(2) have r: "r = (chunks @ [(?w, chunk_metadata name i ?w)], i + 1)"
        by (auto simp: stops_at_def split: if_splits)
      have "stops_at st cs (pos + int 1 * ?step)"
        using True by (simp add: stops_at_def)
      with r emit show ?thesis
        by (intro exI [of _ 1]) (simp add: emitted_from_def)
    next
      case False
      with emit 1(2) have
        "f st name cs ov (pos + ?step) (i + 1) (chunks @ [(?w, chunk_metadata name i ?w)]) = Some r"
        by (auto simp: stops_at_def split: if_splits)
      from 1(1) [OF this] obtain k where
        k1: "map fst (fst r) = map fst (chunks @ [(?w, chunk_metadata name i ?w)])
               @ emitted_from st cs ?step (pos + ?step) k"
        and k2: "\<forall>j<k. \<not> stops_at st cs (pos + ?step + int j * ?step)"
        and k3: "stops_at st cs (pos + ?step + int k * ?step)"
        by blast
      have a1: "map fst (fst r) = map fst chunks @ emitted_from st cs ?step pos (Suc k)"
        using k1 by (simp add: emitted_from_Suc)
      have a2: "\<forall>j<Suc k. \<not> stops_at st cs (pos + int j * ?step)"
      proof (intro allI impI)
        fix j
        assume "j < Suc k"
        show "\<not> stops_at st cs (pos + int j * ?step)"
        proof (cases j)
          case 0
          with emit show ?thesis by simp
        next
          case (Suc j')
          with \<open>j < Suc k\<close> k2 have "\<not> stops_at st cs (pos + ?step + int j' * ?step)" by simp
          with Suc show ?thesis by (simp add: algebra_simps)
        qed
      qed
      have a3: "stops_at st cs (pos + int (Suc k) * ?step)"
        using k3 by (simp add: algebra_simps)
      from a1 a2 a3 show ?thesis by blast
    qed
  qed
qed

lemma section_windows_emitted_from: "emitted_from st cs (cs - ov) 0 k = section_windows st cs ov k"
  by (simp add: emitted_from_def section_windows_def)

lemma chunk_section_count:
  assumes "chunk_section st name cs ov 0 i chunks = Some (chunks', i')"
  shows "\<exists>k. map fst chunks' = map fst chunks @ section_windows st cs ov k
           \<and> emitted_count st cs ov k"
  using chunk_section_windows [OF assms]
  by (auto simp add: section_windows_emitted_from emitted_count_def)

lemma emitted_count_empty: "emitted_count [] cs ov 0"
  by (simp add: emitted_count_def stops_at_def)

lemma chunk_sections_windows:
  "chunk_sections doc sections cs ov i chunks = Some chunks' \<Longrightarrow>
     \<exists>ks. list_all2 (\<lambda>sec k. emitted_count (section_text_of doc sec) cs ov k) sections ks
        \<and> map fst chunks' = map fst chunks @
             concat (map2 (\<lambda>sec k. section_windows (section_text_of doc sec) cs ov k)
                       sections ks)"
proof (induction sections arbitrary: i chunks)
  case Nil
  then show ?case by simp
next
  case (Cons sec sections)
  show ?case
  proof (cases "section_text_of doc sec = []")
    case True
    with Cons.prems have "chunk_sections doc sections cs ov i chunks = Some chunks'" by simp
    from Cons.IH [OF this] obtain ks where
      ks: "list_all2 (\<lambda>sec k. emitted_count (section_text_of doc sec) cs ov k) sections ks"
      and m: "map fst chunks' = map fst chunks @
             concat (map2 (\<lambda>sec k. section_windows (section_text_of doc sec) cs ov k)
                       sections ks)"
      by blast
    from ks True have
      "list_all2 (\<lambda>sec k. emitted_count (section_text_of doc sec) cs ov k)
         (sec # sections) (0 # ks)"
      by (simp add: emitted_count_empty)
    moreover from m have "map fst chunks' = map fst chunks @
             concat (map2 (\<lambda>sec k. section_windows (section_text_of doc sec) cs ov k)
                       (sec # sections) (0 # ks))"
      by (simp add: section_windows_def)
    ultimately show ?thesis by blast
  next
    case False
    with Cons.prems obtain c1 i1 where
      l: "chunk_section (section_text_of doc sec) (fst sec) cs ov 0 i chunks = Some (c1, i1)"
      and r: "chunk_sections doc sections cs ov i1 c1 = Some chunks'"
      by (auto split: option.splits)
    from chunk_section_count [OF l] obtain k where
      k1: "map fst c1 = map fst chunks @ section_windows (section_text_of doc sec) cs ov k"
      and k2: "emitted_count (section_text_of doc sec) cs ov k"
      by blast
    from Cons.IH [OF r] obtain ks where
      ks: "list_all2 (\<lambda>sec k. emitted_count (section_text_of doc sec) cs ov k) sections ks"
      and m: "map fst chunks' = map fst c1 @
             concat (map2 (\<lambda>sec k. section_windows (section_text_of doc sec) cs ov k)
                       sections ks)"
      by blast
    from ks k2 have
      "list_all2 (\<lambda>sec k. emitted_count (section_text_of doc sec) cs ov k)
         (sec # sections) (k # ks)"
      by simp
    moreover from m k1 have "map fst chunks' = map fst chunks @
             concat (map2 (\<lambda>sec k. section_windows (section_text_of doc sec) cs ov k)
                       (sec # sections) (k # ks))"
      by simp
    ultimately show ?thesis by blast
  qed
qed

lemma py_strip_decomp:
  "\<exists>a b. s = a @ py_strip s @ b \<and> (\<forall>c \<in> set a. py_isspace c) \<and> (\<forall>c \<in> set b. py_isspace c)"
proof -
  let ?a = "takeWhile py_isspace s"
  let ?s' = "dropWhile py_isspace s"
  let ?b = "rev (takeWhile py_isspace (rev ?s'))"
  have "py_strip s @ ?b
          = rev (takeWhile py_isspace (rev ?s') @ dropWhile py_isspace (rev ?s'))"
    by (simp only: py_strip_def rev_append)
  also have "\<dots> = ?s'"
    by (simp only: takeWhile_dropWhile_id rev_rev_ident)
  finally have "?s' = py_strip s @ ?b" by (rule sym)
  then have "s = ?a @ py_strip s @ ?b"
    by (metis takeWhile_dropWhile_id)
  moreover have "\<forall>c \<in> set ?a. py_isspace c"
    by (auto dest: set_takeWhileD)
  moreover have "\<forall>c \<in> set ?b. py_isspace c"
    by (auto dest: set_takeWhileD)
  ultimately show ?thesis by blast
qed

lemma nth_in_middle:
  assumes "xs = A @ c @ B" and "i < length xs" and "xs ! i \<notin> set A" and "xs ! i \<notin> set B"
  shows "length A \<le> i \<and> i < length A + length c"
proof (intro conjI)
  show "length A \<le> i"
  proof (rule ccontr)
    assume "\<not> length A \<le> i"
    then have "i < length A" by simp
    then have "xs ! i = A ! i" "A ! i \<in> set A"
      using assms(1) by (simp_all add: nth_append)
    with assms(3) show False by simp
  qed
next
  show "i < length A + length c"
  proof (rule ccontr)
    assume n: "\<not> i < length A + length c"
    define j where "j = i - (length A + length c)"
    from n have i: "i = length A + length c + j" by (simp add: j_def)
    from assms(1) assms(2) i have "j < length B" by simp
    moreover have "xs ! i = B ! j"
      unfolding assms(1) i by (simp add: nth_append)
    ultimately have "xs ! i \<in> set B" by simp
    with assms(4) show False by simp
  qed
qed

lemma window_covers_position:
  assumes a: "0 \<le> a" "nat a \<le> p" and we: "int p < we" and p: "p < length st"
    and ns: "\<not> py_isspace (st ! p)"
  shows "position_covered st (py_strip (py_slice st a we)) p"
proof -
  let ?lo = "nat a"
  let ?hi = "min (nat we) (length st)"
  let ?sl = "take (?hi - ?lo) (drop ?lo st)"
  from a we p have lo: "?lo \<le> p" "p < ?hi" by auto
  have sl: "py_slice st a we = ?sl"
    using a we p by (auto simp add: py_slice_def py_slice_index_def min_def)
  obtain A B where d: "?sl = A @ py_strip ?sl @ B"
    and A: "\<forall>c \<in> set A. py_isspace c" and B: "\<forall>c \<in> set B. py_isspace c"
    using py_strip_decomp [of ?sl] by blast
  let ?c = "py_strip ?sl"
  have len_sl: "length ?sl = ?hi - ?lo" by auto
  have idx': "p - ?lo < ?hi - ?lo" using lo by linarith
  have "?sl ! (p - ?lo) = drop ?lo st ! (p - ?lo)"
    using idx' by (rule nth_take)
  also have "\<dots> = st ! (?lo + (p - ?lo))"
    using lo p by (intro nth_drop) linarith
  finally have at: "?sl ! (p - ?lo) = st ! p"
    using lo(1) by (simp only: le_add_diff_inverse)
  have idx: "p - ?lo < length ?sl" using lo len_sl by linarith
  have "?sl ! (p - ?lo) \<notin> set A" "?sl ! (p - ?lo) \<notin> set B"
    using A B ns at by auto
  from nth_in_middle [OF d idx this]
  have ge: "length A \<le> p - ?lo" and lt: "p - ?lo < length A + length ?c"
    by simp_all
  let ?off = "?lo + length A"
  define rest where "rest = drop (?hi - ?lo) (drop ?lo st)"
  define tail where "tail = drop ?lo st"
  have "tail = ?sl @ rest"
    unfolding rest_def tail_def by (rule append_take_drop_id [symmetric])
  with d have tl: "tail = A @ ?c @ B @ rest" by simp
  have "drop ?off st = drop (length A) tail"
    unfolding tail_def by (simp only: drop_drop add.commute)
  also have "\<dots> = ?c @ B @ rest"
    unfolding tl by simp
  finally have dr: "drop ?off st = ?c @ B @ rest" .
  then have t: "take (length ?c) (drop ?off st) = ?c" by simp
  have offp: "?off \<le> p" using ge lo by linarith
  have ar: "x \<le> L - off \<Longrightarrow> off \<le> q \<Longrightarrow> q < L \<Longrightarrow> off + x \<le> L" for x L off q :: nat
    by linarith
  have "length (drop ?off st) \<ge> length ?c" using dr by simp
  then have "length ?c \<le> length st - ?off" by (simp only: length_drop)
  from ar [OF this offp p] have b: "?off + length ?c \<le> length st" .
  note offp
  moreover have "p < ?off + length ?c" using lt lo by linarith
  ultimately show ?thesis
    unfolding position_covered_def sl using t b by auto
qed

lemma window_end_lower:
  "min (pos + cs) (int (length st)) \<le> window_end st cs pos"
  by (simp add: window_end_def split: option.splits prod.splits)

lemma grid_index:
  fixes p s k :: nat
  assumes s: "0 < s" and k: "0 < k"
  defines "j \<equiv> min (p div s) (k - 1)"
  shows "j < k" and "j * s \<le> p" and "p div s \<le> k - 1 \<Longrightarrow> p < j * s + s"
    and "\<not> p div s \<le> k - 1 \<Longrightarrow> j = k - 1"
proof -
  show "j < k" using k by (simp add: j_def)
  have "j * s \<le> (p div s) * s" by (simp add: j_def)
  also have "\<dots> \<le> p" by simp
  finally show "j * s \<le> p" .
  show "p < j * s + s" if "p div s \<le> k - 1"
  proof -
    from that have "j = p div s" by (simp add: j_def)
    moreover have "p < (p div s) * s + s"
      using s by (metis add.commute dividend_less_div_times mult.commute)
    ultimately show ?thesis by simp
  qed
  show "j = k - 1" if "\<not> p div s \<le> k - 1"
    using that by (simp add: j_def)
qed

lemma section_coverage:
  assumes ov: "0 \<le> ov" "ov < cs"
    and k: "0 < k"
    and p: "p < length st"
    and bound: "int p < int (k - 1) * (cs - ov) + cs"
    and ns: "\<not> py_isspace (st ! p)"
  shows "\<exists>j<k. position_covered st (window_chunk st cs (int j * (cs - ov))) p"
proof -
  define s where "s = nat (cs - ov)"
  from ov have s: "0 < s" "int s = cs - ov" by (simp_all add: s_def)
  define j where "j = min (p div s) (k - 1)"
  note g = grid_index [OF s(1) k, of p, folded j_def]
  let ?a = "int j * (cs - ov)"
  have a0: "0 \<le> ?a" using ov by simp
  have na: "nat ?a = j * s"
    using s(2) by (metis nat_int of_nat_mult)
  have ale: "nat ?a \<le> p" using g(2) na by simp
  have "int p < ?a + cs"
  proof (cases "p div s \<le> k - 1")
    case True
    from g(3) [OF True] have "int p < int (j * s + s)" by (simp only: of_nat_less_iff)
    also have "\<dots> = ?a + (cs - ov)" using s(2) by simp
    also have "\<dots> \<le> ?a + cs" using ov by simp
    finally show ?thesis .
  next
    case False
    from g(4) [OF False] bound show ?thesis by simp
  qed
  with p have "int p < min (?a + cs) (int (length st))" by simp
  also have "\<dots> \<le> window_end st cs ?a" by (rule window_end_lower)
  finally have we: "int p < window_end st cs ?a" .
  from window_covers_position [OF a0 ale we p ns]
  have "position_covered st (window_chunk st cs ?a) p"
    by (simp only: window_chunk_def)
  with g(1) show ?thesis by blast
qed

lemma in_concat_map2:
  assumes "(x, y) \<in> set (zip xs ys)" and "c \<in> set (f x y)"
  shows "c \<in> set (concat (map2 f xs ys))"
proof -
  from assms(1) have "f x y \<in> set (map2 f xs ys)"
    by (metis (mono_tags, lifting) case_prod_conv image_eqI list.set_map)
  with assms(2) show ?thesis by (metis UN_I set_concat)
qed

text \<open>
  Claim C8 (as amended): with \<open>0 \<le> overlap < chunk_size\<close>, \<open>chunk_text\<close> returns, and the
  emitted chunk texts are, section by section in order, the stripped windows
  \<open>section_text[j * (chunk_size - overlap) : \<dots>]\<close> for \<open>j < k\<close>, where window number \<open>k\<close> is
  the first one that starts at or after the end of the section text or is, stripped,
  shorter than 100 characters. Every character of a section's text \<open>text[start:end]\<close>
  that is not white space and lies before the end of the last emitted window of that
  section appears, at its position, in some emitted chunk. Nothing is said about text
  outside the sections' spans.
\<close>

theorem chunk_text_covers_sections:
  assumes "0 \<le> overlap" and "overlap < chunk_size"
  shows "\<exists>chunks ks.
      chunk_text doc sections chunk_size overlap = Some chunks
    \<and> list_all2 (\<lambda>sec k. emitted_count (section_text_of doc sec) chunk_size overlap k)
        (effective_sections doc sections) ks
    \<and> map fst chunks =
        concat (map2 (\<lambda>sec k. section_windows (section_text_of doc sec) chunk_size overlap k)
                  (effective_sections doc sections) ks)
    \<and> (\<forall>(sec, k) \<in> set (zip (effective_sections doc sections) ks).
         \<forall>p < length (section_text_of doc sec).
           0 < k \<and> int p < int (k - 1) * (chunk_size - overlap) + chunk_size
           \<and> \<not> py_isspace (section_text_of doc sec ! p)
           \<longrightarrow> (\<exists>c \<in> set (map fst chunks). position_covered (section_text_of doc sec) c p))"
proof -
  from chunk_sections_terminates [OF assms(2)] obtain chunks where
    r: "chunk_sections doc (effective_sections doc sections) chunk_size overlap 0 []
               = Some chunks"
    by blast
  then have c: "chunk_text doc sections chunk_size overlap = Some chunks"
    by (simp only: chunk_text_def)
  from chunk_sections_windows [OF r]
  have "\<exists>ks. list_all2 (\<lambda>sec k. emitted_count (section_text_of doc sec) chunk_size overlap k)
           (effective_sections doc sections) ks
      \<and> map fst chunks =
        concat (map2 (\<lambda>sec k. section_windows (section_text_of doc sec) chunk_size overlap k)
                  (effective_sections doc sections) ks)"
    by (simp only: list.map append_Nil)
  then obtain ks where
    ks: "list_all2 (\<lambda>sec k. emitted_count (section_text_of doc sec) chunk_size overlap k)
           (effective_sections doc sections) ks"
    and m: "map fst chunks =
        concat (map2 (\<lambda>sec k. section_windows (section_text_of doc sec) chunk_size overlap k)
                  (effective_sections doc sections) ks)"
    by (elim exE conjE) (rule that)
  have cov: "\<exists>c \<in> set (map fst chunks). position_covered (section_text_of doc sec) c p"
    if z: "(sec, k) \<in> set (zip (effective_sections doc sections) ks)"
      and p: "p < length (section_text_of doc sec)"
      and k: "0 < k"
      and b: "int p < int (k - 1) * (chunk_size - overlap) + chunk_size"
      and ns: "\<not> py_isspace (section_text_of doc sec ! p)"
    for sec k p
  proof -
    from section_coverage [OF assms k p b ns] obtain j where
      j: "j < k"
      and pc: "position_covered (section_text_of doc sec)
             (window_chunk (section_text_of doc sec) chunk_size
                (int j * (chunk_size - overlap))) p"
      by blast
    from j have "window_chunk (section_text_of doc sec) chunk_size
                (int j * (chunk_size - overlap))
            \<in> set (section_windows (section_text_of doc sec) chunk_size overlap k)"
      by (simp add: section_windows_def)
    from in_concat_map2 [OF z, of _ "\<lambda>sec k.
        section_windows (section_text_of doc sec) chunk_size overlap k", OF this]
    have "window_chunk (section_text_of doc sec) chunk_size
                (int j * (chunk_size - overlap)) \<in> set (map fst chunks)"
      by (simp only: m)
    with pc show ?thesis by blast
  qed
  have all: "\<forall>(sec, k) \<in> set (zip (effective_sections doc sections) ks).
         \<forall>p < length (section_text_of doc sec).
           0 < k \<and> int p < int (k - 1) * (chunk_size - overlap) + chunk_size
           \<and> \<not> py_isspace (section_text_of doc sec ! p)
           \<longrightarrow> (\<exists>c \<in> set (map fst chunks). position_covered (section_text_of doc sec) c p)"
  proof (intro ballI, clarify)
    fix sec k p
    assume "(sec, k) \<in> set (zip (effective_sections doc sections) ks)"
      and "p < length (section_text_of doc sec)"
      and "0 < k"
      and "int p < int (k - 1) * (chunk_size - overlap) + chunk_size"
      and "\<not> py_isspace (section_text_of doc sec ! p)"
    then show "\<exists>c \<in> set (map fst chunks). position_covered (section_text_of doc sec) c p"
      by (rule cov)
  qed
  show ?thesis
    by (intro exI [of _ chunks] exI [of _ ks] conjI c ks m all)
qed


section \<open>The chunker on an example document\<close>

lemma detect_sections_example:
  "detect_sections example_text = [(''1. Evacuation'', 116, 273), (''2. Reporting'', 273, 407)]"
  by code_simp

lemma chunk_text_example:
  "chunk_text example_text
     (Some [(''1. Evacuation'', 116, 273), (''2. Reporting'', 273, 407)]) 800 100 =
     Some [(example_section_1,
            \<lparr> cm_section_name = Some ''1. Evacuation'', cm_page_number = 0,
              cm_chunk_index = 0, cm_word_count = 29, cm_char_count = 156 \<rparr>),
           (example_section_2,
            \<lparr> cm_section_name = Some ''2. Reporting'', cm_page_number = 0,
              cm_chunk_index = 1, cm_word_count = 25, cm_char_count = 134 \<rparr>)]"
  by code_simp

lemma example_section_1_text:
  "section_text_of example_text (''1. Evacuation'', 116, 273) = example_section_1"
  by code_simp

lemma example_section_1_emits: "\<not> stops_at example_section_1 800 0"
  by code_simp

lemma example_section_1_first: "\<not> py_isspace (example_section_1 ! 0)" "0 < length example_section_1"
  by code_simp+

lemma example_preamble_lost:
  "length example_preamble = 115" "take 115 example_text = example_preamble"
  "example_text ! 113 = CHR ''9''" "\<not> py_isspace (CHR ''9'')"
  "CHR ''9'' \<notin> set example_section_1" "CHR ''9'' \<notin> set example_section_2"
  by code_simp+

text \<open>
  Claim C7 on the example document with its detected sections, chunk size 800 and
  overlap 100: two chunks, numbered 0 and 1.
\<close>

theorem chunk_text_indices_contiguous_witness:
  "(100 :: int) < 800
   \<and> (\<exists>chunks. chunk_text example_text (Some (detect_sections example_text)) 800 100
                  = Some chunks
          \<and> map fst chunks = [example_section_1, example_section_2]
          \<and> map (\<lambda>c. cm_chunk_index (snd c)) chunks = [0, 1])"
proof -
  note e = chunk_text_example [folded detect_sections_example]
  from chunk_text_indices_contiguous
    [of 100 800 example_text "Some (detect_sections example_text)"] e
  have "map (\<lambda>c. cm_chunk_index (snd c))
          [(example_section_1,
            \<lparr> cm_section_name = Some ''1. Evacuation'', cm_page_number = 0,
              cm_chunk_index = 0, cm_word_count = 29, cm_char_count = 156 \<rparr>),
           (example_section_2,
            \<lparr> cm_section_name = Some ''2. Reporting'', cm_page_number = 0,
              cm_chunk_index = 1, cm_word_count = 25, cm_char_count = 134 \<rparr>)]
        = [0, 1]"
    by (simp add: numeral_2_eq_2)
  with e show ?thesis by simp
qed

text \<open>
  Claim C8 as stated fails: the example document starts with 115 characters before its
  first heading. They belong to no detected section and reach no chunk: the character
  \<open>9\<close> at position 113 of the text occurs in neither of the two emitted chunks. It is not
  in an overlap region, and the text that is lost is not a trailing fragment.
\<close>

theorem chunk_text_coverage_counterexample:
  "chunk_text example_text (Some (detect_sections example_text)) 800 100 =
     Some [(example_section_1,
            \<lparr> cm_section_name = Some ''1. Evacuation'', cm_page_number = 0,
              cm_chunk_index = 0, cm_word_count = 29, cm_char_count = 156 \<rparr>),
           (example_section_2,
            \<lparr> cm_section_name = Some ''2. Reporting'', cm_page_number = 0,
              cm_chunk_index = 1, cm_word_count = 25, cm_char_count = 134 \<rparr>)]
   \<and> take 115 example_text = example_preamble
   \<and> example_text ! 113 = CHR ''9''
   \<and> \<not> py_isspace (CHR ''9'')
   \<and> CHR ''9'' \<notin> set example_section_1
   \<and> CHR ''9'' \<notin> set example_section_2"
  using chunk_text_example [folded detect_sections_example] example_preamble_lost
  by (simp only: simp_thms)

text \<open>
  Claim C8 (as amended) on the example document: the first character of the first
  section is in an emitted chunk.
\<close>

theorem chunk_text_covers_sections_witness:
  "(0 :: int) \<le> 100 \<and> (100 :: int) < 800
   \<and> (position_covered example_section_1 example_section_1 0
        \<or> position_covered example_section_1 example_section_2 0)"
proof -
  let ?secs = "[(''1. Evacuation'', 116, 273), (''2. Reporting'', 273, 407)]"
  have h: "(0 :: int) \<le> 100" "(100 :: int) < 800" by simp_all
  from chunk_text_covers_sections [OF h, of example_text "Some ?secs"]
  obtain chunks ks where
    c: "chunk_text example_text (Some ?secs) 800 100 = Some chunks"
    and ks: "list_all2 (\<lambda>sec k. emitted_count (section_text_of example_text sec) 800 100 k)
               (effective_sections example_text (Some ?secs)) ks"
    and cov: "\<forall>(sec, k) \<in> set (zip (effective_sections example_text (Some ?secs)) ks).
         \<forall>p < length (section_text_of example_text sec).
           0 < k \<and> int p < int (k - 1) * (800 - 100) + 800
           \<and> \<not> py_isspace (section_text_of example_text sec ! p)
           \<longrightarrow> (\<exists>c \<in> set (map fst chunks).
                  position_covered (section_text_of example_text sec) c p)"
    by (elim exE conjE) (rule that)
  have es: "effective_sections example_text (Some ?secs) = ?secs"
    by (simp add: effective_sections_def)
  from ks obtain k1 k2 where k: "ks = [k1, k2]"
    and e1: "emitted_count (section_text_of example_text (''1. Evacuation'', 116, 273)) 800 100 k1"
    unfolding es by (auto simp add: list_all2_Cons1)
  from e1 have "stops_at example_section_1 800 (int k1 * (800 - 100))"
    by (simp add: emitted_count_def example_section_1_text)
  with example_section_1_emits have k1: "0 < k1"
    by (cases k1) simp_all
  have z: "((''1. Evacuation'', 116, 273), k1)
             \<in> set (zip (effective_sections example_text (Some ?secs)) ks)"
    unfolding es k by simp
  have b: "int 0 < int (k1 - 1) * (800 - 100) + 800" by simp
  from bspec [OF cov z] have "\<forall>p < length example_section_1.
           0 < k1 \<and> int p < int (k1 - 1) * (800 - 100) + 800
           \<and> \<not> py_isspace (example_section_1 ! p)
           \<longrightarrow> (\<exists>c \<in> set (map fst chunks). position_covered example_section_1 c p)"
    by (simp only: prod.case example_section_1_text)
  with k1 b example_section_1_first
  have "\<exists>c \<in> set (map fst chunks). position_covered example_section_1 c 0"
    by blast
  moreover from c chunk_text_example
  have "map fst chunks = [example_section_1, example_section_2]"
    by auto
  ultimately show ?thesis by simp
qed


section \<open>Properties of ingestion\<close>

text \<open>
  Steps 1 to 5 never hand chunks to step 6: either the extraction raises, or the text is
  blank, or reading \<open>chunk_text\<close> at step 4 raises UnboundLocalError.
\<close>

lemma ingest_prepare_raises: "\<exists>e. ingest_prepare svc req = Some (Inl e)"
  by (auto simp add: ingest_prepare_def chunk_text_at_step_4_def Let_def
      split: sum.splits prod.splits)

lemma ingest_prepare_unbound:
  assumes "is_extract_text svc (ir_pdf_source req) = Inr (full_text, total_pages)"
    and "py_strip full_text \<noteq> []"
  shows "ingest_prepare svc req = Some (Inl UnboundLocalError)"
  using assms by (simp add: ingest_prepare_def chunk_text_at_step_4_def Let_def)

lemma db_rollback_committed:
  "db_policies (db_rollback db) = db_policies db"
  "db_policy_chunks (db_rollback db) = db_policy_chunks db"
  "db_pending_policies (db_rollback db) = []"
  "db_pending_chunks (db_rollback db) = []"
  by (simp_all add: db_rollback_def)

lemma example_text_not_blank: "py_strip example_text \<noteq> []"
  by code_simp

text \<open>
  Claim C9: ingestion is transactional at the metadata-store level. Every call of
  \<open>ingest_policy\<close> returns; as the method is written it returns by raising, after the
  \<open>except\<close> clause has rolled the session back, and it leaves the committed policy and
  chunk rows of the metadata store as they were, with nothing staged. So no call leaves
  a partial Document or Chunk row, which is the second alternative of the claim (the
  first, full success, never arises: see \<open>ingest_prepare_raises\<close>).
\<close>

theorem ingest_policy_transactional:
  "\<exists>e st'. ingest_policy svc req st = Some (Inl e, st')
      \<and> metadata_unchanged st st' \<and> nothing_staged st'"
proof -
  from ingest_prepare_raises obtain e where "ingest_prepare svc req = Some (Inl e)"
    by blast
  then have "ingest_policy svc req st = Some (Inl e, st \<lparr> st_db := db_rollback (st_db st) \<rparr>)"
    by (simp add: ingest_policy_def)
  then show ?thesis
    by (simp add: metadata_unchanged_def nothing_staged_def db_rollback_committed)
qed

text \<open>
  Claim C9 on an example: a document with extractable text, all collaborators working,
  empty stores. The call raises UnboundLocalError and the stores stay empty.
\<close>

theorem ingest_policy_transactional_witness:
  "ingest_policy (example_ingestion no_faults) example_request empty_stores
     = Some (Inl UnboundLocalError, empty_stores)
   \<and> metadata_unchanged empty_stores empty_stores
   \<and> nothing_staged empty_stores"
proof -
  have p: "ingest_prepare (example_ingestion no_faults) example_request
             = Some (Inl UnboundLocalError)"
    by (rule ingest_prepare_unbound [where full_text = example_text and total_pages = 1])
      (simp_all add: example_ingestion_def example_text_not_blank)
  have r: "empty_stores \<lparr> st_db := db_rollback (st_db empty_stores) \<rparr> = empty_stores"
    by (simp add: empty_stores_def db_rollback_def)
  from p have v: "ingest_policy (example_ingestion no_faults) example_request empty_stores
             = Some (Inl UnboundLocalError, empty_stores)"
    by (simp add: ingest_policy_def r)
  from ingest_policy_transactional
    [of "example_ingestion no_faults" example_request empty_stores]
  obtain e st' where
    "ingest_policy (example_ingestion no_faults) example_request empty_stores
       = Some (Inl e, st')"
    and "metadata_unchanged empty_stores st'" and "nothing_staged st'"
    by (elim exE conjE) (rule that)
  with v show ?thesis by simp
qed

section \<open>The storing steps of ingestion\<close>

text \<open>
  Steps 6a to 6c on their own, entered with chunks and embeddings of equal number.
  (No call of \<open>ingest_policy\<close> enters them, by \<open>ingest_prepare_raises\<close>.)
\<close>

lemma add_policy_chunks_result:
  "add_policy_chunks pid chunks ids db = Inr db2 \<Longrightarrow>
     length chunks \<le> length ids
     \<and> db2 = db \<lparr> db_pending_chunks :=
                     db_pending_chunks db @ map2 (new_policy_chunk pid) chunks ids \<rparr>"
proof (induction pid chunks ids db rule: add_policy_chunks.induct)
  case (1 pid ids db)
  then show ?case by simp
next
  case (2 pid chunk chunks db)
  then show ?case by simp
next
  case (3 pid chunk chunks embedding_id embedding_ids db)
  from "3.prems" have
    "add_policy_chunks pid chunks embedding_ids
       (db_add_chunk (new_policy_chunk pid chunk embedding_id) db) = Inr db2"
    by simp
  from "3.IH" [OF this] show ?case
    by (simp add: db_add_chunk_def)
qed

lemma upsert_vectors_ids:
  "upsert_vectors svc new_id embeddings pid texts idxs names metas store = (Inr ids, store')
     \<Longrightarrow> ids = map new_id [0 ..< length embeddings]"
  by (auto simp add: upsert_vectors_def split: option.splits if_splits prod.splits)

lemma flushed_db:
  "db_flush_policy p (db_add_policy p db) =
     (p \<lparr> p_id := db_next_policy_id db \<rparr>,
      db \<lparr> db_pending_policies := db_pending_policies db @ [p \<lparr> p_id := db_next_policy_id db \<rparr>],
           db_next_policy_id := db_next_policy_id db + 1 \<rparr>)"
  by (simp add: db_flush_policy_def db_add_policy_def)

text \<open>
  What the storing steps leave behind, by the step that raised: either the committed
  rows are those of before, or the commit was done and the policy and all its chunk
  rows are committed; the latter with an exception only if it is \<open>db.refresh\<close> that
  raised.
\<close>

lemma ingest_store_outcome:
  assumes len: "length embeddings = length chunks"
    and run: "ingest_store svc req chunks embeddings st = (r, st1)"
  defines "policy \<equiv> new_policy req \<lparr> p_id := db_next_policy_id (st_db st) \<rparr>"
  defines "rows \<equiv> map2 (new_policy_chunk (p_id policy)) chunks
                     (map (is_new_id svc) [0 ..< length chunks])"
  shows "(\<exists>e. r = Inl e
            \<and> db_policies (st_db st1) = db_policies (st_db st)
            \<and> db_policy_chunks (st_db st1) = db_policy_chunks (st_db st))
       \<or> ((r = Inr (policy, int (length chunks))
             \<or> (\<exists>e. r = Inl e \<and> is_db_fault svc Refresh = Some e))
           \<and> db_policies (st_db st1)
               = db_policies (st_db st) @ db_pending_policies (st_db st) @ [policy]
           \<and> db_policy_chunks (st_db st1)
               = db_policy_chunks (st_db st) @ db_pending_chunks (st_db st) @ rows
           \<and> db_pending_policies (st_db st1) = []
           \<and> db_pending_chunks (st_db st1) = [])"
proof (cases "is_db_fault svc Flush")
  case (Some e)
  with run show ?thesis
    by (auto simp add: ingest_store_def db_add_policy_def)
next
  case None
  note flush = this
  define db1 where "db1 = (st_db st) \<lparr> db_pending_policies :=
       db_pending_policies (st_db st) @ [policy], db_next_policy_id := db_next_policy_id (st_db st) + 1 \<rparr>"
  have fl: "db_flush_policy (new_policy req) (db_add_policy (new_policy req) (st_db st))
              = (policy, db1)"
    by (simp add: flushed_db policy_def db1_def)
  obtain u points where up: "upsert_vectors (is_qdrant svc) (is_new_id svc) embeddings
                       (p_id policy) (map fst chunks)
                       (map (\<lambda>c. cm_chunk_index (snd c)) chunks)
                       (map (\<lambda>c. cm_section_name (snd c)) chunks)
                       (map (chunk_payload_metadata req) chunks) (st_points st) = (u, points)"
    by (cases "upsert_vectors (is_qdrant svc) (is_new_id svc) embeddings
                       (p_id policy) (map fst chunks)
                       (map (\<lambda>c. cm_chunk_index (snd c)) chunks)
                       (map (\<lambda>c. cm_section_name (snd c)) chunks)
                       (map (chunk_payload_metadata req) chunks) (st_points st)")
  show ?thesis
  proof (cases u)
    case (Inl e)
    with run flush fl up show ?thesis
      by (auto simp add: ingest_store_def db1_def)
  next
    case (Inr ids)
    from upsert_vectors_ids [OF up [unfolded Inr]] len
    have ids: "ids = map (is_new_id svc) [0 ..< length chunks]" by simp
    show ?thesis
    proof (cases "add_policy_chunks (p_id policy) chunks ids db1")
      case (Inl e)
      with run flush fl up \<open>u = Inr ids\<close> show ?thesis
        by (auto simp add: ingest_store_def db1_def)
    next
      case (Inr db2)
      from add_policy_chunks_result [OF Inr]
      have db2: "db2 = db1 \<lparr> db_pending_chunks := db_pending_chunks db1 @ rows \<rparr>"
        by (simp add: rows_def ids)
      show ?thesis
      proof (cases "is_db_fault svc Commit")
        case (Some e)
        with run flush fl up \<open>u = Inr ids\<close> Inr show ?thesis
          by (auto simp add: ingest_store_def db2 db1_def)
      next
        case None
        note commit = this
        have c: "db_policies (db_commit db2)
                   = db_policies (st_db st) @ db_pending_policies (st_db st) @ [policy]"
          "db_policy_chunks (db_commit db2)
                   = db_policy_chunks (st_db st) @ db_pending_chunks (st_db st) @ rows"
          "db_pending_policies (db_commit db2) = []"
          "db_pending_chunks (db_commit db2) = []"
          by (simp_all add: db_commit_def db2 db1_def)
        show ?thesis
        proof (cases "is_db_fault svc Refresh")
          case (Some e)
          with run flush fl up \<open>u = Inr ids\<close> Inr commit have
            "r = Inl e" "st_db st1 = db_commit db2"
            by (auto simp add: ingest_store_def)
          with Some c show ?thesis by simp
        next
          case None
          with run flush fl up \<open>u = Inr ids\<close> Inr commit have
            "r = Inr (policy, int (length chunks))" "st_db st1 = db_commit db2"
            by (auto simp add: ingest_store_def)
          with c show ?thesis by simp
        qed
      qed
    qed
  qed
qed

end
